theory Spec2Isabelle
  imports Complex_Main
begin

section \<open>JavaScript values used by the routes and the dashboard\<close>

text \<open>
  A value of type \<open>string | null | undefined\<close> is a \<open>string option\<close>. JavaScript's
  truthiness test on such a value (\<open>if (!secret)\<close>, \<open>a && b\<close>, \<open>a || b\<close>) is false for
  \<open>null\<close>, \<open>undefined\<close> and the empty string.
\<close>

definition truthy :: "string option \<Rightarrow> bool" where
  "truthy v = (case v of None \<Rightarrow> False | Some s \<Rightarrow> s \<noteq> [])"

text \<open>\<open>a || d\<close> for a nullable string \<open>a\<close> and a string \<open>d\<close>.\<close>

definition or_else :: "string option \<Rightarrow> string \<Rightarrow> string" where
  "or_else v d = (case v of None \<Rightarrow> d | Some s \<Rightarrow> (if s = [] then d else s))"

section \<open>Credit reset endpoint (\<open>POST /api/cron/reset-credits\<close>)\<close>

text \<open>
  \<open>isAuthorized\<close> reads the environment variable \<open>CRON_SECRET\<close> and two request headers.
  The request is the pair of values \<open>req.headers.get\<close> returns for them.
\<close>

record cron_headers =
  authorization :: "string option"
  x_cron_secret :: "string option"

definition isAuthorized :: "string option \<Rightarrow> cron_headers \<Rightarrow> bool" where
  "isAuthorized secret req =
     (if \<not> truthy secret then True
      else
        let bearer = authorization req;
            headerSecret = x_cron_secret req
        in if truthy headerSecret \<and> headerSecret = secret then True
           else if bearer = Some (''Bearer '' @ or_else secret []) then True
           else False)"

text \<open>
  The \<open>profiles\<close> table, as far as the reset reads and writes it, and the table
  \<open>PLAN_CREDITS\<close> in the order \<open>Object.entries\<close> enumerates it.
\<close>

record profile =
  profile_id :: string
  profile_plan :: string
  credits_remaining :: int

definition PLAN_CREDITS :: "(string \<times> int) list" where
  "PLAN_CREDITS = [(''starter'', 1), (''pro'', 5), (''enterprise'', 20)]"

text \<open>
  \<open>update({credits_remaining: credits}).eq("plan", plan).select("id")\<close>: the new table and
  the number of rows returned.
\<close>

definition update_credits :: "string \<Rightarrow> int \<Rightarrow> profile list \<Rightarrow> profile list \<times> nat" where
  "update_credits pl credits db =
     (map (\<lambda>p. if profile_plan p = pl then p\<lparr>credits_remaining := credits\<rparr> else p) db,
      length (filter (\<lambda>p. profile_plan p = pl) db))"

datatype reset_response =
    Unauthorized401
  | CreditResetFailed500
  | ResetOk200 "(string \<times> nat \<times> int) list"

text \<open>
  The loop over \<open>PLAN_CREDITS\<close>. \<open>fails pl\<close> says that the database answers the update
  for plan \<open>pl\<close> with an error, which the handler throws and turns into a 500; updates
  made before it stay.
\<close>

fun reset_loop ::
  "(string \<Rightarrow> bool) \<Rightarrow> (string \<times> int) list \<Rightarrow> (string \<times> nat \<times> int) list \<Rightarrow> profile list
     \<Rightarrow> profile list \<times> reset_response" where
  "reset_loop fails [] updates db = (db, ResetOk200 updates)"
| "reset_loop fails ((pl, credits) # rest) updates db =
     (if fails pl then (db, CreditResetFailed500)
      else case update_credits pl credits db of
             (db', n) \<Rightarrow> reset_loop fails rest (updates @ [(pl, n, credits)]) db')"

definition no_failure :: "string \<Rightarrow> bool" where
  "no_failure pl = False"

definition reset_POST ::
  "string option \<Rightarrow> (string \<Rightarrow> bool) \<Rightarrow> cron_headers \<Rightarrow> profile list
     \<Rightarrow> profile list \<times> reset_response" where
  "reset_POST secret fails req db =
     (if \<not> isAuthorized secret req then (db, Unauthorized401)
      else reset_loop fails PLAN_CREDITS [] db)"

section \<open>Dashboard (book wizard): data\<close>

text \<open>
  A JavaScript \<open>number\<close> that arrives in a JSON body is read as the real it denotes
  (JSON has no NaN and no infinity). \<open>json\<close> stands for a value of type \<open>unknown\<close>.
\<close>

type_synonym number = real

datatype json =
    JNull
  | JBool bool
  | JNumber number
  | JString string
  | JArray "json list"
  | JObject "(string \<times> json) list"

text \<open>The union type \<open>"starter" | "pro" | "enterprise"\<close> of the state variable \<open>plan\<close>.\<close>

datatype plan = Starter | Pro | Enterprise

datatype step = Idle | Researching | ResearchDone | Generating | Done

record opportunity =
  genre :: string
  subgenre :: string
  demand_score :: number
  competition_level :: string
  trend_direction :: string
  suggested_price_ebook :: number
  suggested_price_paperback :: number
  target_audience :: string
  opportunity_keywords :: "string list"
  why_now :: string
  estimated_monthly_revenue :: string

record research_result =
  opportunities :: "opportunity list"
  market_summary :: string
  recommended_opportunity :: opportunity
  research_sources :: "string list"

record book_chapter =
  chapter_number :: number
  chapter_title :: string
  chapter_summary :: "string option"
  chapter_content :: "string option"

record outline =
  outline_title :: "string option"
  outline_subtitle :: "string option"
  back_cover_description :: "string option"
  outline_chapters :: "book_chapter list option"

text \<open>\<open>GeneratedBookResponse\<close>: every field is optional.\<close>

record generated_book_response =
  outline :: "outline option"
  chapter_1_preview :: "string option"
  amazon_listing :: "(string \<times> json) list option"
  cover_prompt :: "string option"
  full_chapters :: "book_chapter list option"
  cover_image_base64 :: "string option"
  cover_image_mime_type :: "string option"
  book_id :: "string option"
  plan_used :: "plan option"
  response_credits_remaining :: "number option"
  pdf_url :: "string option"
  epub_url :: "string option"
  cover_image_url :: "string option"
  audiobook_url :: "string option"
  generation_notes :: "string list option"
  notification_sent :: "bool option"

text \<open>The state variable \<open>generatedBook\<close>.\<close>

record generated_book =
  title :: string
  chapter1Preview :: string
  coverPrompt :: string
  amazonListing :: "(string \<times> json) list"
  book_outline :: "outline option"
  fullChapters :: "book_chapter list option"
  coverImageBase64 :: "string option"
  coverImageMimeType :: "string option"
  bookId :: "string option"
  pdfUrl :: "string option"
  epubUrl :: "string option"
  coverImageUrl :: "string option"
  audiobookUrl :: "string option"
  creditsRemaining :: "number option"
  generationNotes :: "string list"

text \<open>
  The component's state variables that \<open>runResearch\<close> and \<open>generateBook\<close> read and
  write.
\<close>

record dashboard =
  user_email :: "string option"
  plan :: plan
  step :: step
  research :: "research_result option"
  selectedOpportunity :: "opportunity option"
  aiModel :: string
  generationProgress :: number
  generationStep :: string
  generatedBook :: "generated_book option"
  error :: "string option"

text \<open>The body \<open>generateBook\<close> posts to the API.\<close>

record payload =
  payload_genre :: string
  payload_subgenre :: string
  payload_target_audience :: string
  payload_keywords :: "string list"
  page_count :: number
  tone :: string
  language :: string
  ai_model :: string
  payload_plan :: plan
  generate_full_book :: bool
  generate_cover_image :: bool
  generate_audiobook :: bool
  recipient_email :: "string option"
  payload_demand_score :: number
  estimated_revenue :: string

text \<open>
  What an awaited \<open>fetch\<close> gives: the promise rejects with an \<open>Error\<close> carrying a
  message, or it resolves to a response that is not \<open>ok\<close> (with its text body), or to an
  \<open>ok\<close> response (with its parsed JSON body).
\<close>

datatype 'a fetch_result = Rejected string | NotOk string | Ok 'a

text \<open>
  The JSON body of \<open>GET /api/books/jobs/{id}\<close>. \<open>js_progress\<close> is \<open>Some\<close> exactly
  when \<open>typeof status.progress === "number"\<close>.
\<close>

record job_status =
  js_status :: string
  js_progress :: "number option"
  js_step :: "string option"
  js_result :: "generated_book_response option"
  js_error :: "string option"

text \<open>
  Everything outside the component that \<open>generateBook\<close> depends on: the session's access
  token, \<open>NODE_ENV\<close> (\<open>allowMock\<close> is \<open>NODE_ENV !== "production"\<close>),
  \<open>NEXT_PUBLIC_API_URL\<close>, the answer to the start request (the \<open>job_id\<close> of its body),
  the answer to the \<open>i\<close>-th status request, the answer to the synchronous request, and
  \<open>latency i\<close>: the milliseconds the \<open>i\<close>-th round takes beyond the 1800 ms of its
  timer.
\<close>

record gen_env =
  access_token :: "string option"
  allowMock :: bool
  NEXT_PUBLIC_API_URL :: "string option"
  startRes :: "string option fetch_result"
  statusRes :: "nat \<Rightarrow> job_status fetch_result"
  syncRes :: "generated_book_response fetch_result"
  latency :: "nat \<Rightarrow> nat"

datatype http_request = Post string payload | Get string

datatype 'a outcome = Returned 'a | Threw string

section \<open>Dashboard: the plan gate of \<open>generateBook\<close>\<close>

fun plan_name :: "plan \<Rightarrow> string" where
  "plan_name Starter = ''starter''"
| "plan_name Pro = ''pro''"
| "plan_name Enterprise = ''enterprise''"

definition build_payload :: "dashboard \<Rightarrow> opportunity \<Rightarrow> payload" where
  "build_payload d opp =
     \<lparr>payload_genre = genre opp,
      payload_subgenre = subgenre opp,
      payload_target_audience = target_audience opp,
      payload_keywords = opportunity_keywords opp,
      page_count = 220,
      tone = ''engaging'',
      language = ''en'',
      ai_model = aiModel d,
      payload_plan = plan d,
      generate_full_book = (plan d = Pro \<or> plan d = Enterprise),
      generate_cover_image = (plan d = Pro \<or> plan d = Enterprise),
      generate_audiobook = False,
      recipient_email = (if truthy (user_email d) then user_email d else None),
      payload_demand_score = demand_score opp,
      estimated_revenue = estimated_monthly_revenue opp\<rparr>"

text \<open>The branch \<open>if (plan === "pro" || plan === "enterprise")\<close>: the asynchronous job path.\<close>

definition async_path :: "plan \<Rightarrow> bool" where
  "async_path p = (p = Pro \<or> p = Enterprise)"

section \<open>Dashboard: the polling loop of \<open>generateBook\<close>\<close>

definition timeoutMs :: nat where
  "timeoutMs = 15 * 60 * 1000"

definition api_url :: "gen_env \<Rightarrow> string" where
  "api_url env = or_else (NEXT_PUBLIC_API_URL env) ''http://localhost:8000''"

definition status_url :: "gen_env \<Rightarrow> string \<Rightarrow> string" where
  "status_url env job_id = api_url env @ ''/api/books/jobs/'' @ job_id"

text \<open>The two display updates made after each status body is read.\<close>

definition show_status :: "job_status \<Rightarrow> dashboard \<Rightarrow> dashboard" where
  "show_status st d =
     (let d1 = (case js_progress st of
                  Some p \<Rightarrow> d\<lparr>generationProgress := min 99 (max p 10)\<rparr>
                | None \<Rightarrow> d)
      in if truthy (js_step st) then d1\<lparr>generationStep := or_else (js_step st) []\<rparr> else d1)"

text \<open>
  \<open>while (true)\<close>: \<open>i\<close> counts the rounds, \<open>elapsed\<close> is \<open>Date.now() - startTime\<close>
  at the head of the round, \<open>reqs\<close> the requests sent so far. The clock of the model:
  a round that does not end the loop takes the 1800 ms of its timer and \<open>latency env i\<close>
  more, so \<open>Date.now()\<close> never stands still or runs backwards between two rounds.
\<close>

function pollJob ::
  "gen_env \<Rightarrow> string \<Rightarrow> nat \<Rightarrow> nat \<Rightarrow> dashboard \<Rightarrow> http_request list
     \<Rightarrow> dashboard \<times> http_request list \<times> generated_book_response option outcome" where
  "pollJob env job_id i elapsed d reqs =
     (if elapsed > timeoutMs then (d, reqs, Threw ''Generation timed out. Please try again.'')
      else
        let reqs' = reqs @ [Get (status_url env job_id)]
        in case statusRes env i of
             Rejected m \<Rightarrow> (d, reqs', Threw m)
           | NotOk body \<Rightarrow> (d, reqs', Threw ''Could not read generation status'')
           | Ok st \<Rightarrow>
               let d' = show_status st d
               in if js_status st = ''completed'' then (d', reqs', Returned (js_result st))
                  else if js_status st = ''failed''
                    then (d', reqs', Threw (or_else (js_error st) ''Generation failed''))
                  else pollJob env job_id (Suc i) (elapsed + 1800 + latency env i) d' reqs')"
  by pat_completeness auto
termination
  by (relation "measure (\<lambda>(env, job_id, i, elapsed, d, reqs). Suc timeoutMs - elapsed)") auto

section \<open>Dashboard: \<open>runResearch\<close>\<close>

definition mockResearch :: research_result where
  "mockResearch =
     \<lparr>opportunities =
        [\<lparr>genre = ''Romance'',
          subgenre = ''Fated Mates Shifter Romance'',
          demand_score = 91,
          competition_level = ''medium'',
          trend_direction = ''rising'',
          suggested_price_ebook = 4.99,
          suggested_price_paperback = 14.99,
          target_audience = ''Women 25-45, Kindle Unlimited subscribers'',
          opportunity_keywords = [''fated mates'', ''wolf shifter'', ''paranormal romance''],
          why_now = ''#fatedmates has surpassed 2.8B TikTok views. Amazon algorithm favors series starters in this niche.'',
          estimated_monthly_revenue = ''$1,200-3,500''\<rparr>,
         \<lparr>genre = ''Self-Help'',
          subgenre = ''AI Productivity for Entrepreneurs'',
          demand_score = 84,
          competition_level = ''low'',
          trend_direction = ''rising'',
          suggested_price_ebook = 9.99,
          suggested_price_paperback = 24.99,
          target_audience = ''Entrepreneurs 28-45, tech-forward professionals'',
          opportunity_keywords = [''AI productivity'', ''entrepreneur success'', ''automation''],
          why_now = ''AI adoption is exploding. Business owners searching for practical guides. Very low-quality competition in this specific angle.'',
          estimated_monthly_revenue = ''$900-2,800''\<rparr>,
         \<lparr>genre = ''Mystery'',
          subgenre = ''Cozy Mystery with Cat Protagonist'',
          demand_score = 78,
          competition_level = ''low'',
          trend_direction = ''stable'',
          suggested_price_ebook = 3.99,
          suggested_price_paperback = 12.99,
          target_audience = ''Women 45+, cozy mystery fans, pet lovers'',
          opportunity_keywords = [''cozy mystery'', ''cat mystery'', ''small town mystery''],
          why_now = ''Cozy mystery readership grew 23% in 2025. Cat-themed books consistently outperform genre averages. KU readers binge entire series.'',
          estimated_monthly_revenue = ''$600-1,800''\<rparr>],
      market_summary = ''The romance market is experiencing its strongest cycle in over a decade, driven by BookTok and Kindle Unlimited's binge-reading culture. Dark romance and fated mates tropes are dominating discovery algorithms.'',
      recommended_opportunity =
        \<lparr>genre = ''Romance'',
         subgenre = ''Fated Mates Shifter Romance'',
         demand_score = 91,
         competition_level = ''medium'',
         trend_direction = ''rising'',
         suggested_price_ebook = 4.99,
         suggested_price_paperback = 14.99,
         target_audience = ''Women 25-45, Kindle Unlimited subscribers'',
         opportunity_keywords =
           [''fated mates romance'', ''wolf shifter romance'', ''paranormal romance'',
            ''alpha mate'', ''dark romance'', ''enemies to lovers'', ''bear shifter''],
         why_now = ''#fatedmates has surpassed 2.8B TikTok views. The trope merges perfectly with paranormal worldbuilding. Amazon algorithm currently favors series starters in this niche.'',
         estimated_monthly_revenue = ''$1,200-3,500''\<rparr>,
      research_sources = [''Amazon Bestsellers'', ''BookTok Feb 2026'', ''KDP data'']\<rparr>"

text \<open>
  \<open>runResearch\<close>, given what the request to \<open>/api/research/analyze\<close> gives. The
  \<open>catch\<close> takes a rejected fetch and the \<open>"API unavailable"\<close> thrown on a response
  that is not \<open>ok\<close> alike; it reads no environment variable.
\<close>

definition runResearch :: "research_result fetch_result \<Rightarrow> dashboard \<Rightarrow> dashboard" where
  "runResearch res d =
     (let d1 = d\<lparr>step := Researching, error := None\<rparr>;
          d2 = (case res of
                  Ok data \<Rightarrow>
                    d1\<lparr>research := Some data,
                       selectedOpportunity := Some (recommended_opportunity data)\<rparr>
                | NotOk body \<Rightarrow>
                    d1\<lparr>research := Some mockResearch,
                       selectedOpportunity := Some (recommended_opportunity mockResearch)\<rparr>
                | Rejected m \<Rightarrow>
                    d1\<lparr>research := Some mockResearch,
                       selectedOpportunity := Some (recommended_opportunity mockResearch)\<rparr>)
      in d2\<lparr>step := ResearchDone\<rparr>)"

section \<open>Dashboard: \<open>generateBook\<close>\<close>

definition steps :: "(string \<times> number) list" where
  "steps =
     [(''Analyzing market data...'', 15),
      (''Building book structure...'', 35),
      (''Writing Chapter 1...'', 60),
      (''Generating Amazon listing...'', 80),
      (''Creating cover prompt...'', 95)]"

definition show_steps :: "dashboard \<Rightarrow> dashboard" where
  "show_steps d =
     foldl (\<lambda>d' s. d'\<lparr>generationStep := fst s, generationProgress := snd s\<rparr>) d steps"

text \<open>
  The body of the \<open>try\<close>: the value assigned to \<open>data\<close>, or the message of the error
  thrown, with the display as the loop left it and the requests sent.
\<close>

definition try_generate ::
  "gen_env \<Rightarrow> opportunity \<Rightarrow> dashboard
     \<Rightarrow> dashboard \<times> http_request list \<times> generated_book_response option outcome" where
  "try_generate env opp d =
     (if \<not> truthy (access_token env)
        then (d, [], Threw ''Your session expired. Please sign in again.'')
      else
        let body = build_payload d opp
        in if async_path (plan d) then
             (let start = [Post (api_url env @ ''/api/books/generate-async'') body]
              in case startRes env of
                   Rejected m \<Rightarrow> (d, start, Threw m)
                 | NotOk err \<Rightarrow> (d, start, Threw (or_else (Some err) ''Generation start failed''))
                 | Ok job_id \<Rightarrow>
                     if \<not> truthy job_id
                       then (d, start, Threw ''Invalid generation job response'')
                     else pollJob env (or_else job_id []) 0 0 d start)
           else
             (let sent = [Post (api_url env @ ''/api/books/generate'') body]
              in case syncRes env of
                   Rejected m \<Rightarrow> (d, sent, Threw m)
                 | NotOk err \<Rightarrow> (d, sent, Threw (or_else (Some err) ''Generation failed''))
                 | Ok data \<Rightarrow> (d, sent, Returned (Some data))))"

text \<open>The \<open>"Mock result for local fallback"\<close> of the \<open>catch\<close>.\<close>

definition mockBook :: generated_book_response where
  "mockBook =
     \<lparr>outline = Some
        \<lparr>outline_title = Some ''Blood Moon: A Fated Mates Paranormal Romance'',
         outline_subtitle = Some ''A Fated Mates Paranormal Romance'',
         back_cover_description = Some ''Maya believed her fated mate was dead. When a scent from her past drags her into a war between rival packs, she must decide whether to trust fate one more time.'',
         outline_chapters = Some
           [\<lparr>chapter_number = 1,
             chapter_title = ''Moonbound'',
             chapter_summary = Some ''Maya senses her mate is alive and is forced back into pack politics.'',
             chapter_content = None\<rparr>]\<rparr>,
      chapter_1_preview = Some
        (''The scent hit her before she saw him '' @ [CHR 0xE2, CHR 0x80, CHR 0x94] @
         '' cedar and storm, something wild and ancient that made her wolf howl in recognition. Maya pressed her back against the cold stone of the library wall, heart hammering. Impossible. She'd been told her fated mate had died in the border wars seven years ago. She'd mourned him. Built a life without him...''),
      amazon_listing = Some
        [(''title'', JString ''Blood Moon: A Fated Mates Paranormal Romance''),
         (''price_ebook'', JNumber 4.99),
         (''categories'',
          JArray [JString ''Romance > Paranormal'', JString ''Romance > Werewolves & Shifters''])],
      cover_prompt = Some ''Professional book cover for 'Blood Moon'. Romantic paranormal atmosphere, glowing moon, silhouette of wolf and woman, deep red and black color palette, modern romance bestseller aesthetic.'',
      full_chapters = None,
      cover_image_base64 = None,
      cover_image_mime_type = None,
      book_id = None,
      plan_used = None,
      response_credits_remaining = None,
      pdf_url = None,
      epub_url = None,
      cover_image_url = None,
      audiobook_url = None,
      generation_notes = None,
      notification_sent = None\<rparr>"

text \<open>\<open>v || null\<close> for a nullable string.\<close>

definition or_null :: "string option \<Rightarrow> string option" where
  "or_null v = (if truthy v then v else None)"

text \<open>\<open>generationNotes.join(" ")\<close>.\<close>

fun join_notes :: "string list \<Rightarrow> string" where
  "join_notes [] = []"
| "join_notes [x] = x"
| "join_notes (x # y # ys) = x @ '' '' @ join_notes (y # ys)"

definition book_view :: "generated_book_response \<Rightarrow> generated_book" where
  "book_view data =
     \<lparr>title = or_else (case outline data of None \<Rightarrow> None | Some ol \<Rightarrow> outline_title ol)
                ''Your Book Title'',
      chapter1Preview = or_else (chapter_1_preview data) [],
      coverPrompt = or_else (cover_prompt data) [],
      amazonListing = (case amazon_listing data of None \<Rightarrow> [] | Some l \<Rightarrow> l),
      book_outline = outline data,
      fullChapters = full_chapters data,
      coverImageBase64 = or_null (cover_image_base64 data),
      coverImageMimeType = or_null (cover_image_mime_type data),
      bookId = or_null (book_id data),
      pdfUrl = or_null (pdf_url data),
      epubUrl = or_null (epub_url data),
      coverImageUrl = or_null (cover_image_url data),
      audiobookUrl = or_null (audiobook_url data),
      creditsRemaining = response_credits_remaining data,
      generationNotes = (case generation_notes data of None \<Rightarrow> [] | Some ns \<Rightarrow> ns)\<rparr>"

text \<open>
  How a call of \<open>generateBook\<close> ends: it returns, with the state and the requests sent,
  or an error leaves it uncaught. The only code after the \<open>catch\<close> that can throw is the
  first read of \<open>data\<close>, when a completed job's \<open>result\<close> was \<open>null\<close>.
\<close>

datatype gen_result =
    Finished dashboard "http_request list"
  | Uncaught string dashboard "http_request list"

text \<open>The code after the \<open>try\<close>/\<open>catch\<close>.\<close>

definition show_book ::
  "generated_book_response option \<Rightarrow> dashboard \<Rightarrow> http_request list \<Rightarrow> gen_result" where
  "show_book data d reqs =
     (case data of
        None \<Rightarrow> Uncaught ''TypeError'' d reqs
      | Some b \<Rightarrow>
          let view = book_view b;
              d1 = d\<lparr>generatedBook := Some view\<rparr>;
              d2 = (case plan_used b of Some p \<Rightarrow> d1\<lparr>plan := p\<rparr> | None \<Rightarrow> d1);
              d3 = (if length (generationNotes view) > 0
                    then d2\<lparr>error := Some (join_notes (generationNotes view))\<rparr> else d2)
          in Finished
               (d3\<lparr>generationProgress := 100,
                   generationStep := ''Book generated successfully!'',
                   step := Done\<rparr>)
               reqs)"

definition generateBook :: "gen_env \<Rightarrow> dashboard \<Rightarrow> gen_result" where
  "generateBook env d =
     (case selectedOpportunity d of
        None \<Rightarrow> Finished d []
      | Some opp \<Rightarrow>
          let d0 = show_steps (d\<lparr>step := Generating, generationProgress := 0, error := None\<rparr>)
          in (case try_generate env opp d0 of
                (d1, reqs, Returned data) \<Rightarrow> show_book data d1 reqs
              | (d1, reqs, Threw message) \<Rightarrow>
                  if \<not> allowMock env
                    then Finished (d1\<lparr>error := Some message, step := ResearchDone\<rparr>) reqs
                  else show_book (Some mockBook)
                         (d1\<lparr>error := Some (''Using local demo fallback: '' @ message)\<rparr>) reqs))"

section \<open>Notions used to state the properties of the dashboard\<close>

text \<open>A status request answered by a job that is neither \<open>completed\<close> nor \<open>failed\<close>.\<close>

definition still_running :: "job_status fetch_result \<Rightarrow> bool" where
  "still_running r =
     (case r of
        Ok st \<Rightarrow> js_status st \<noteq> ''completed'' \<and> js_status st \<noteq> ''failed''
      | NotOk body \<Rightarrow> False
      | Rejected m \<Rightarrow> False)"

text \<open>
  The number of rounds the loop can still begin when a round starts \<open>elapsed\<close>
  milliseconds after \<open>startTime\<close>.
\<close>

definition rounds_left :: "nat \<Rightarrow> nat" where
  "rounds_left elapsed = (if elapsed > timeoutMs then 0 else (timeoutMs - elapsed) div 1800 + 1)"

text \<open>
  \<open>Date.now() - startTime\<close> at the head of round \<open>i\<close> of a loop that has not ended
  before it.
\<close>

fun round_start :: "gen_env \<Rightarrow> nat \<Rightarrow> nat" where
  "round_start env 0 = 0"
| "round_start env (Suc i) = round_start env i + 1800 + latency env i"

subsection \<open>Sample state and environments\<close>

definition sample_dashboard :: "plan \<Rightarrow> dashboard" where
  "sample_dashboard p =
     \<lparr>user_email = Some ''reader@example.com'',
      plan = p,
      step = ResearchDone,
      research = Some mockResearch,
      selectedOpportunity = Some (recommended_opportunity mockResearch),
      aiModel = ''claude'',
      generationProgress = 0,
      generationStep = [],
      generatedBook = None,
      error = None\<rparr>"

definition running_status :: job_status where
  "running_status =
     \<lparr>js_status = ''running'', js_progress = Some 40, js_step = Some ''Writing chapters'',
      js_result = None, js_error = None\<rparr>"

definition completed_status :: job_status where
  "completed_status =
     \<lparr>js_status = ''completed'', js_progress = Some 100, js_step = Some ''Done'',
      js_result = Some (mockBook\<lparr>book_id := Some ''book-1''\<rparr>), js_error = None\<rparr>"

definition failed_status :: job_status where
  "failed_status =
     \<lparr>js_status = ''failed'', js_progress = Some 35, js_step = Some ''Building outline'',
      js_result = None, js_error = Some ''Outline generation failed''\<rparr>"

definition always_running :: "nat \<Rightarrow> job_status fetch_result" where
  "always_running i = Ok running_status"

fun transient_then_completed :: "nat \<Rightarrow> job_status fetch_result" where
  "transient_then_completed 0 = NotOk ''Bad Gateway''"
| "transient_then_completed (Suc i) = Ok completed_status"

fun running_then_failed :: "nat \<Rightarrow> job_status fetch_result" where
  "running_then_failed 0 = Ok running_status"
| "running_then_failed (Suc i) = Ok failed_status"

fun running_then_completed :: "nat \<Rightarrow> job_status fetch_result" where
  "running_then_completed 0 = Ok running_status"
| "running_then_completed (Suc i) = Ok completed_status"

text \<open>A job that is still running in rounds 0 to 500 and completed from round 501 on.\<close>

definition completes_after_deadline :: "nat \<Rightarrow> job_status fetch_result" where
  "completes_after_deadline i = (if i \<le> 500 then Ok running_status else Ok completed_status)"

definition offline :: "nat \<Rightarrow> job_status fetch_result" where
  "offline i = Rejected ''Failed to fetch''"

definition no_latency :: "nat \<Rightarrow> nat" where
  "no_latency i = 0"

text \<open>A production build (\<open>NODE_ENV = "production"\<close>) whose start request is accepted.\<close>

definition production_env :: "(nat \<Rightarrow> job_status fetch_result) \<Rightarrow> gen_env" where
  "production_env answers =
     \<lparr>access_token = Some ''jwt'',
      allowMock = False,
      NEXT_PUBLIC_API_URL = Some ''https://api.example.com'',
      startRes = Ok (Some ''job-1''),
      statusRes = answers,
      syncRes = NotOk ''Internal Server Error'',
      latency = no_latency\<rparr>"

text \<open>
  A first round that takes 15 minutes in all (its timer and a slow answer), so that the
  second round begins exactly \<open>timeoutMs\<close> after the start.
\<close>

fun slow_first_round :: "nat \<Rightarrow> nat" where
  "slow_first_round 0 = 898200"
| "slow_first_round (Suc i) = 0"

definition slow_env :: gen_env where
  "slow_env = (production_env running_then_completed)\<lparr>latency := slow_first_round\<rparr>"

section \<open>Job store: the table \<open>book_jobs\<close> and its row-level security\<close>

text \<open>
  A row of \<open>public.book_jobs\<close>. Every SQL column can hold \<open>NULL\<close> (\<open>None\<close>); the
  \<open>not null\<close> constraints are part of \<open>constraint_violation\<close> below. Timestamps are
  readings of \<open>now()\<close>.
\<close>

record book_job =
  job_id :: "string option"
  job_user_id :: "string option"
  job_status :: "string option"
  job_progress :: "int option"
  job_step :: "string option"
  request_json :: "json option"
  result_json :: "json option"
  job_error :: "string option"
  created_at :: "nat option"
  updated_at :: "nat option"

datatype db_error =
    RlsViolation
  | NotNullViolation
  | CheckViolation
  | UniqueViolation
  | ForeignKeyViolation

text \<open>
  The expression \<open>auth.uid() = user_id\<close> of the three policies, for a statement issued
  with \<open>auth.uid() = uid\<close> by a role that is subject to the policies: it admits a row only
  when it is true, which it is not when either side is \<open>NULL\<close>.
\<close>

definition owns :: "string option \<Rightarrow> book_job \<Rightarrow> bool" where
  "owns uid r = (case uid of None \<Rightarrow> False | Some u \<Rightarrow> job_user_id r = Some u)"

text \<open>\<open>primary key\<close> and \<open>not null\<close>.\<close>

definition not_null_ok :: "book_job \<Rightarrow> bool" where
  "not_null_ok r =
     (job_id r \<noteq> None \<and> job_user_id r \<noteq> None \<and> job_status r \<noteq> None \<and> job_progress r \<noteq> None)"

text \<open>The two \<open>check\<close> constraints; a check is not violated by \<open>NULL\<close>.\<close>

definition status_check :: "book_job \<Rightarrow> bool" where
  "status_check r =
     (case job_status r of
        None \<Rightarrow> True
      | Some s \<Rightarrow> s \<in> set [''queued'', ''running'', ''completed'', ''failed''])"

definition progress_check :: "book_job \<Rightarrow> bool" where
  "progress_check r =
     (case job_progress r of None \<Rightarrow> True | Some p \<Rightarrow> p \<ge> 0 \<and> p \<le> 100)"

definition constraint_violation :: "book_job \<Rightarrow> db_error option" where
  "constraint_violation r =
     (if \<not> not_null_ok r then Some NotNullViolation
      else if \<not> (status_check r \<and> progress_check r) then Some CheckViolation
      else None)"

text \<open>\<open>user_id uuid references public.profiles(id)\<close>.\<close>

definition user_exists :: "profile list \<Rightarrow> book_job \<Rightarrow> bool" where
  "user_exists profiles r =
     (case job_user_id r of None \<Rightarrow> True | Some u \<Rightarrow> u \<in> set (map profile_id profiles))"

subsection \<open>\<open>insert\<close>\<close>






subsection \<open>\<open>update\<close>\<close>

text \<open>
  The \<open>set\<close> clause of an \<open>update\<close>: constant values for the columns other than \<open>id\<close>,
  each column assigned at most once.
\<close>

datatype assignment =
    Set_user_id "string option"
  | Set_status "string option"
  | Set_progress "int option"
  | Set_step "string option"
  | Set_request_json "json option"
  | Set_result_json "json option"
  | Set_error "string option"
  | Set_created_at "nat option"
  | Set_updated_at "nat option"

fun assign :: "assignment \<Rightarrow> book_job \<Rightarrow> book_job" where
  "assign (Set_user_id v) r = r\<lparr>job_user_id := v\<rparr>"
| "assign (Set_status v) r = r\<lparr>job_status := v\<rparr>"
| "assign (Set_progress v) r = r\<lparr>job_progress := v\<rparr>"
| "assign (Set_step v) r = r\<lparr>job_step := v\<rparr>"
| "assign (Set_request_json v) r = r\<lparr>request_json := v\<rparr>"
| "assign (Set_result_json v) r = r\<lparr>result_json := v\<rparr>"
| "assign (Set_error v) r = r\<lparr>job_error := v\<rparr>"
| "assign (Set_created_at v) r = r\<lparr>created_at := v\<rparr>"
| "assign (Set_updated_at v) r = r\<lparr>updated_at := v\<rparr>"

text \<open>
  The new version of a row the statement reaches: the assignments, then the trigger
  \<open>book_jobs_updated_at\<close> (\<open>new.updated_at = now()\<close>).
\<close>

definition updated_row :: "nat \<Rightarrow> assignment list \<Rightarrow> book_job \<Rightarrow> book_job" where
  "updated_row now sets r = (fold assign sets r)\<lparr>updated_at := Some now\<rparr>"

text \<open>
  The policy \<open>"Users can update own book jobs"\<close> has a \<open>using\<close> expression and no
  \<open>with check\<close>, so the \<open>using\<close> expression is applied to the new version of the row
  too; then the constraints are checked.
\<close>

definition update_row ::
  "string option \<Rightarrow> profile list \<Rightarrow> nat \<Rightarrow> assignment list \<Rightarrow> book_job \<Rightarrow> db_error + book_job" where
  "update_row uid profiles now sets r =
     (let r' = updated_row now sets r
      in if \<not> owns uid r' then Inl RlsViolation
         else case constraint_violation r' of
                Some e \<Rightarrow> Inl e
              | None \<Rightarrow> if \<not> user_exists profiles r' then Inl ForeignKeyViolation else Inr r')"

text \<open>
  \<open>update book_jobs set ... where id = jid\<close>: the statement reaches the rows with that
  \<open>id\<close> that the \<open>using\<close> expression admits and passes over the others; an error rejects
  the whole statement.
\<close>

fun update_job ::
  "string option \<Rightarrow> profile list \<Rightarrow> nat \<Rightarrow> string \<Rightarrow> assignment list \<Rightarrow> book_job list
     \<Rightarrow> db_error + book_job list" where
  "update_job uid profiles now jid sets [] = Inr []"
| "update_job uid profiles now jid sets (r # rs) =
     (if job_id r = Some jid \<and> owns uid r then
        (case update_row uid profiles now sets r of
           Inl e \<Rightarrow> Inl e
         | Inr r' \<Rightarrow>
             (case update_job uid profiles now jid sets rs of
                Inl e \<Rightarrow> Inl e
              | Inr rs' \<Rightarrow> Inr (r' # rs')))
      else
        (case update_job uid profiles now jid sets rs of
           Inl e \<Rightarrow> Inl e
         | Inr rs' \<Rightarrow> Inr (r # rs')))"

text \<open>
  Who issues a statement: a role that is subject to the policies, with its \<open>auth.uid()\<close>
  (the browser's client, signed in or anonymous), or a role that bypasses row-level
  security (the service-role client the server routes create). For the latter no policy
  is applied: the statement reaches every row with the \<open>id\<close>, and the trigger and the
  constraints remain.
\<close>

datatype db_caller = Service_role | Rls_caller "string option"

definition update_row_bypass ::
  "profile list \<Rightarrow> nat \<Rightarrow> assignment list \<Rightarrow> book_job \<Rightarrow> db_error + book_job" where
  "update_row_bypass profiles now sets r =
     (let r' = updated_row now sets r
      in case constraint_violation r' of
           Some e \<Rightarrow> Inl e
         | None \<Rightarrow> if \<not> user_exists profiles r' then Inl ForeignKeyViolation else Inr r')"

fun update_job_bypass ::
  "profile list \<Rightarrow> nat \<Rightarrow> string \<Rightarrow> assignment list \<Rightarrow> book_job list
     \<Rightarrow> db_error + book_job list" where
  "update_job_bypass profiles now jid sets [] = Inr []"
| "update_job_bypass profiles now jid sets (r # rs) =
     (if job_id r = Some jid then
        (case update_row_bypass profiles now sets r of
           Inl e \<Rightarrow> Inl e
         | Inr r' \<Rightarrow>
             (case update_job_bypass profiles now jid sets rs of
                Inl e \<Rightarrow> Inl e
              | Inr rs' \<Rightarrow> Inr (r' # rs')))
      else
        (case update_job_bypass profiles now jid sets rs of
           Inl e \<Rightarrow> Inl e
         | Inr rs' \<Rightarrow> Inr (r # rs')))"

definition update_job_as ::
  "db_caller \<Rightarrow> profile list \<Rightarrow> nat \<Rightarrow> string \<Rightarrow> assignment list \<Rightarrow> book_job list
     \<Rightarrow> db_error + book_job list" where
  "update_job_as caller profiles now jid sets db =
     (case caller of
        Service_role \<Rightarrow> update_job_bypass profiles now jid sets db
      | Rls_caller uid \<Rightarrow> update_job uid profiles now jid sets db)"

subsection \<open>\<open>select\<close>\<close>

text \<open>
  \<open>select * from book_jobs where id = jid\<close> under the policy
  \<open>"Users can view own book jobs"\<close>, and the lookup of the one job it finds.
\<close>

definition select_job :: "string option \<Rightarrow> string \<Rightarrow> book_job list \<Rightarrow> book_job list" where
  "select_job uid jid db = filter (\<lambda>r. job_id r = Some jid \<and> owns uid r) db"

datatype lookup = NotFound | Found book_job

definition get_job :: "string option \<Rightarrow> string \<Rightarrow> book_job list \<Rightarrow> lookup" where
  "get_job uid jid db = (case select_job uid jid db of [] \<Rightarrow> NotFound | r # rs \<Rightarrow> Found r)"

subsection \<open>Notions used to state the properties of the job store\<close>

definition terminal :: "book_job \<Rightarrow> bool" where
  "terminal r = (job_status r = Some ''completed'' \<or> job_status r = Some ''failed'')"


subsection \<open>Sample rows and statements\<close>

definition sample_profiles :: "profile list" where
  "sample_profiles =
     [\<lparr>profile_id = ''u1'', profile_plan = ''pro'', credits_remaining = 5\<rparr>,
      \<lparr>profile_id = ''u2'', profile_plan = ''enterprise'', credits_remaining = 20\<rparr>]"

definition completed_job :: "string \<Rightarrow> string \<Rightarrow> book_job" where
  "completed_job jid u =
     \<lparr>job_id = Some jid, job_user_id = Some u, job_status = Some ''completed'',
      job_progress = Some 100, job_step = Some ''Done'', request_json = Some (JObject []),
      result_json = Some (JObject [(''book_id'', JString ''book-1'')]), job_error = None,
      created_at = Some 1000, updated_at = Some 2000\<rparr>"


section \<open>Stripe webhook (\<open>POST /api/webhooks/stripe\<close>)\<close>

text \<open>The parts of the Stripe objects the handler reads.\<close>

record checkout_session =
  session_user_id :: "string option"
  session_plan :: "string option"
  session_subscription :: "string option"
  session_customer :: "string option"

record stripe_subscription =
  subscription_id :: string
  subscription_user_id :: "string option"
  subscription_plan :: "string option"
  subscription_status :: string
  current_period_end :: "nat option"
  cancel_at_period_end :: bool

datatype stripe_event =
    Checkout_session_completed checkout_session
  | Customer_subscription_updated stripe_subscription
  | Customer_subscription_deleted stripe_subscription
  | Invoice_payment_failed string
  | Other_event string

text \<open>
  What the handler does to the world, in order: a write through \<open>supabaseAdmin\<close>
  (\<open>update(fields).eq(column, value)\<close> or \<open>upsert(fields, {onConflict})\<close> on a table), or
  an email posted to Resend (recipient, subject, html). A \<open>current_period_end\<close> field
  holds the number of milliseconds given to \<open>new Date\<close>, in place of its ISO string.
\<close>

datatype effect =
    Db_update string "(string \<times> json) list" string string
  | Db_upsert string "(string \<times> json) list" string
  | Send_email string string string

text \<open>
  The environment variables, the library call \<open>stripe.webhooks.constructEvent\<close> (\<open>None\<close>
  when it throws), \<open>stripe.subscriptions.retrieve\<close> (\<open>None\<close> when it rejects), the two
  reads of \<open>profiles\<close> (the email of a user id; the email of the profile with a customer id,
  when there is such a profile) and \<open>Math.floor(Date.now() / 1000)\<close>.
\<close>

record webhook_env =
  STRIPE_WEBHOOK_SECRET :: "string option"
  RESEND_API_KEY :: "string option"
  constructEvent :: "string \<Rightarrow> string \<Rightarrow> string \<Rightarrow> stripe_event option"
  retrieve_subscription :: "string \<Rightarrow> stripe_subscription option"
  profile_email_by_user :: "string \<Rightarrow> string option"
  profile_by_customer :: "string \<Rightarrow> string option option"
  now_seconds :: nat

text \<open>\<open>PLAN_CREDITS[plan] ?? 1\<close>.\<close>

definition plan_credits :: "string \<Rightarrow> int" where
  "plan_credits pl = (case map_of PLAN_CREDITS pl of Some c \<Rightarrow> c | None \<Rightarrow> 1)"

definition sendBillingEmail :: "webhook_env \<Rightarrow> string \<Rightarrow> string \<Rightarrow> string \<Rightarrow> effect list" where
  "sendBillingEmail env to subject html =
     (if \<not> truthy (RESEND_API_KEY env) then [] else [Send_email to subject html])"

definition period_end :: "webhook_env \<Rightarrow> stripe_subscription \<Rightarrow> nat" where
  "period_end env sub = (case current_period_end sub of Some n \<Rightarrow> n | None \<Rightarrow> now_seconds env)"

definition activatePlan :: "string \<Rightarrow> string \<Rightarrow> string \<Rightarrow> string \<Rightarrow> nat \<Rightarrow> effect list" where
  "activatePlan userId pl subscriptionId customerId periodEnd =
     [Db_update ''profiles''
        [(''plan'', JString pl),
         (''credits_remaining'', JNumber (of_int (plan_credits pl))),
         (''stripe_customer_id'', JString customerId)]
        ''id'' userId,
      Db_upsert ''subscriptions''
        [(''user_id'', JString userId),
         (''stripe_subscription_id'', JString subscriptionId),
         (''stripe_customer_id'', JString customerId),
         (''plan'', JString pl),
         (''status'', JString ''active''),
         (''current_period_end'', JNumber (of_nat (periodEnd * 1000))),
         (''cancel_at_period_end'', JBool False)]
        ''stripe_subscription_id'']"

text \<open>
  The \<open>switch\<close> inside the \<open>try\<close>: the effects made, and whether the block ran to its
  end (\<open>True\<close>) or threw (\<open>False\<close>).
\<close>

fun handle_event :: "webhook_env \<Rightarrow> stripe_event \<Rightarrow> effect list \<times> bool" where
  "handle_event env (Checkout_session_completed session) =
     (if \<not> truthy (session_user_id session) \<or> \<not> truthy (session_plan session)
         \<or> \<not> truthy (session_subscription session) \<or> \<not> truthy (session_customer session)
        then ([], True)
      else
        let userId = or_else (session_user_id session) [];
            pl = or_else (session_plan session) []
        in case retrieve_subscription env (or_else (session_subscription session) []) of
             None \<Rightarrow> ([], False)
           | Some sub \<Rightarrow>
               (activatePlan userId pl (subscription_id sub)
                  (or_else (session_customer session) []) (period_end env sub)
                @ (let email = profile_email_by_user env userId
                   in if truthy email
                      then sendBillingEmail env (or_else email [])
                             (''BOOKFORGE '' @ pl @ '' plan activated'')
                             (''<p>Your <strong>'' @ pl @ ''</strong> plan is now active.</p>''
                              @ [CHR 0x0A] @ replicate 13 CHR '' ''
                              @ ''<p>You can manage billing anytime in Settings.</p>'')
                      else []),
                True))"
| "handle_event env (Customer_subscription_updated sub) =
     (if \<not> truthy (subscription_user_id sub) \<or> \<not> truthy (subscription_plan sub)
        then ([], True)
      else
        let userId = or_else (subscription_user_id sub) [];
            pl = or_else (subscription_plan sub) []
        in (Db_update ''subscriptions''
              [(''plan'', JString pl),
               (''status'', JString (subscription_status sub)),
               (''current_period_end'', JNumber (of_nat (period_end env sub * 1000))),
               (''cancel_at_period_end'', JBool (cancel_at_period_end sub))]
              ''stripe_subscription_id'' (subscription_id sub)
            # (if subscription_status sub = ''active''
               then Db_update ''profiles''
                      [(''plan'', JString pl),
                       (''credits_remaining'', JNumber (of_int (plan_credits pl)))]
                      ''id'' userId
                    # (let email = profile_email_by_user env userId
                       in if truthy email \<and> cancel_at_period_end sub
                          then sendBillingEmail env (or_else email [])
                                 ''BOOKFORGE subscription update''
                                 ''<p>Your subscription is active but set to cancel at period end.</p>''
                          else [])
               else []),
            True))"
| "handle_event env (Customer_subscription_deleted sub) =
     (if \<not> truthy (subscription_user_id sub) then ([], True)
      else
        let userId = or_else (subscription_user_id sub) []
        in ([Db_update ''profiles''
               [(''plan'', JString ''starter''), (''credits_remaining'', JNumber 0)]
               ''id'' userId,
             Db_update ''subscriptions'' [(''status'', JString ''canceled'')]
               ''stripe_subscription_id'' (subscription_id sub)]
            @ (let email = profile_email_by_user env userId
               in if truthy email
                  then sendBillingEmail env (or_else email [])
                         ''BOOKFORGE subscription canceled''
                         ''<p>Your paid subscription has been canceled and your account moved to Starter.</p>''
                  else []),
            True))"
| "handle_event env (Invoice_payment_failed customerId) =
     (case profile_by_customer env customerId of
        None \<Rightarrow> ([], True)
      | Some email \<Rightarrow>
          (Db_update ''subscriptions'' [(''status'', JString ''past_due'')]
             ''stripe_customer_id'' customerId
           # (if truthy email
              then sendBillingEmail env (or_else email [])
                     ''BOOKFORGE payment failed''
                     ''<p>We could not process your payment. Please update your card in billing settings.</p>''
              else []),
           True))"
| "handle_event env (Other_event ty) = ([], True)"

datatype webhook_response = Response nat "(string \<times> json) list"

fun response_status :: "webhook_response \<Rightarrow> nat" where
  "response_status (Response code body) = code"

definition webhook_POST ::
  "webhook_env \<Rightarrow> string \<Rightarrow> string option \<Rightarrow> webhook_response \<times> effect list" where
  "webhook_POST env body sig =
     (if \<not> truthy sig \<or> \<not> truthy (STRIPE_WEBHOOK_SECRET env)
        then (Response 400 [(''error'', JString ''Missing signature or webhook secret'')], [])
      else
        case constructEvent env body (or_else sig []) (or_else (STRIPE_WEBHOOK_SECRET env) []) of
          None \<Rightarrow> (Response 400 [(''error'', JString ''Invalid signature'')], [])
        | Some event \<Rightarrow>
            (case handle_event env event of
               (effects, True) \<Rightarrow> (Response 200 [(''received'', JBool True)], effects)
             | (effects, False) \<Rightarrow> (Response 500 [(''error'', JString ''Handler failed'')], effects)))"

subsection \<open>Sample webhook environment\<close>

definition sample_subscription :: stripe_subscription where
  "sample_subscription =
     \<lparr>subscription_id = ''sub_1'', subscription_user_id = Some ''u1'',
      subscription_plan = Some ''pro'', subscription_status = ''active'',
      current_period_end = Some 1800000000, cancel_at_period_end = False\<rparr>"

text \<open>A verifier that accepts exactly the signature \<open>good\<close>.\<close>

definition sample_constructEvent :: "string \<Rightarrow> string \<Rightarrow> string \<Rightarrow> stripe_event option" where
  "sample_constructEvent body sig secret =
     (if sig = ''good'' then Some (Customer_subscription_deleted sample_subscription) else None)"

definition sample_email :: "string \<Rightarrow> string option" where
  "sample_email userId = Some ''reader@example.com''"

definition sample_customer :: "string \<Rightarrow> string option option" where
  "sample_customer customerId = Some (Some ''reader@example.com'')"

definition sample_retrieve :: "string \<Rightarrow> stripe_subscription option" where
  "sample_retrieve subscriptionId = Some sample_subscription"

definition sample_webhook_env :: "string option \<Rightarrow> webhook_env" where
  "sample_webhook_env secret =
     \<lparr>STRIPE_WEBHOOK_SECRET = secret,
      RESEND_API_KEY = Some ''re_key'',
      constructEvent = sample_constructEvent,
      retrieve_subscription = sample_retrieve,
      profile_email_by_user = sample_email,
      profile_by_customer = sample_customer,
      now_seconds = 1790000000\<rparr>"

section \<open>Properties\<close>

subsection \<open>The polling loop\<close>

declare pollJob.simps [simp del]

lemma show_status_progress:
  "generationProgress d \<le> 99 \<Longrightarrow> generationProgress (show_status st d) \<le> 99"
  by (simp add: show_status_def Let_def split: option.split)

lemma show_status_clamp:
  "js_progress st = Some p \<Longrightarrow> generationProgress (show_status st d) = min 99 (max p 10)"
  by (simp add: show_status_def Let_def)

lemma pollJob_timeout:
  "elapsed > timeoutMs \<Longrightarrow>
   pollJob env job i elapsed d reqs = (d, reqs, Threw ''Generation timed out. Please try again.'')"
  by (subst pollJob.simps) simp

lemma pollJob_not_ok:
  "elapsed \<le> timeoutMs \<Longrightarrow> statusRes env i = NotOk body \<Longrightarrow>
   pollJob env job i elapsed d reqs =
     (d, reqs @ [Get (status_url env job)], Threw ''Could not read generation status'')"
  by (subst pollJob.simps) (simp add: Let_def)

lemma pollJob_rejected:
  "elapsed \<le> timeoutMs \<Longrightarrow> statusRes env i = Rejected m \<Longrightarrow>
   pollJob env job i elapsed d reqs = (d, reqs @ [Get (status_url env job)], Threw m)"
  by (subst pollJob.simps) (simp add: Let_def)

lemma pollJob_completed:
  "elapsed \<le> timeoutMs \<Longrightarrow> statusRes env i = Ok st \<Longrightarrow> js_status st = ''completed'' \<Longrightarrow>
   pollJob env job i elapsed d reqs =
     (show_status st d, reqs @ [Get (status_url env job)], Returned (js_result st))"
  by (subst pollJob.simps) (simp add: Let_def)

lemma pollJob_failed:
  "elapsed \<le> timeoutMs \<Longrightarrow> statusRes env i = Ok st \<Longrightarrow> js_status st = ''failed'' \<Longrightarrow>
   pollJob env job i elapsed d reqs =
     (show_status st d, reqs @ [Get (status_url env job)],
      Threw (or_else (js_error st) ''Generation failed''))"
  by (subst pollJob.simps) (simp add: Let_def)

lemma pollJob_again:
  "elapsed \<le> timeoutMs \<Longrightarrow> statusRes env i = Ok st \<Longrightarrow>
   js_status st \<noteq> ''completed'' \<Longrightarrow> js_status st \<noteq> ''failed'' \<Longrightarrow>
   pollJob env job i elapsed d reqs =
     pollJob env job (Suc i) (elapsed + 1800 + latency env i) (show_status st d)
       (reqs @ [Get (status_url env job)])"
  by (subst pollJob.simps) (simp add: Let_def)


lemma rounds_left_step:
  "elapsed \<le> timeoutMs \<Longrightarrow> Suc (rounds_left (elapsed + 1800 + l)) \<le> rounds_left elapsed"
  unfolding rounds_left_def timeoutMs_def by (auto simp: algebra_simps) 

lemma pollJob_requests:
  "\<exists>n \<le> rounds_left elapsed.
     fst (snd (pollJob env job i elapsed d reqs)) = reqs @ replicate n (Get (status_url env job))"
proof (induction env job i elapsed d reqs rule: pollJob.induct)
  case (1 env job i elapsed d reqs)
  show ?case
  proof (cases "elapsed > timeoutMs")
    case True
    then show ?thesis by (simp add: pollJob_timeout)
  next
    case False
    then have le: "elapsed \<le> timeoutMs" by simp
    then have pos: "1 \<le> rounds_left elapsed" by (simp add: rounds_left_def)
    let ?g = "Get (status_url env job)"
    have one: "reqs @ [?g] = reqs @ replicate 1 ?g" by simp
    show ?thesis
    proof (cases "statusRes env i")
      case (Rejected m)
      with le pos one show ?thesis by (metis pollJob_rejected fst_conv snd_conv)
    next
      case (NotOk body)
      with le pos one show ?thesis by (metis pollJob_not_ok fst_conv snd_conv)
    next
      case (Ok st)
      show ?thesis
      proof (cases "js_status st = ''completed''")
        case True
        with le pos one Ok show ?thesis by (metis pollJob_completed fst_conv snd_conv)
      next
        case nc: False
        show ?thesis
        proof (cases "js_status st = ''failed''")
          case True
          with le pos one Ok show ?thesis by (metis pollJob_failed fst_conv snd_conv)
        next
          case nf: False
          from "1.IH" [OF False refl Ok refl nc nf]
          obtain n where n: "n \<le> rounds_left (elapsed + 1800 + latency env i)"
            and eq: "fst (snd (pollJob env job (Suc i) (elapsed + 1800 + latency env i)
                       (show_status st d) (reqs @ [?g]))) = (reqs @ [?g]) @ replicate n ?g"
            by blast
          have "fst (snd (pollJob env job i elapsed d reqs)) = reqs @ replicate (Suc n) ?g"
            using eq pollJob_again [OF le Ok nc nf] by simp
          moreover have "Suc n \<le> rounds_left elapsed"
            using n rounds_left_step [OF le, of "latency env i"] by simp
          ultimately show ?thesis by blast
        qed
      qed
    qed
  qed
qed

lemma rounds_left_0: "rounds_left 0 = 501"
  by (simp add: rounds_left_def timeoutMs_def)

lemma pollJob_progress:
  "generationProgress d \<le> 99 \<Longrightarrow>
   generationProgress (fst (pollJob env job i elapsed d reqs)) \<le> 99"
proof (induction env job i elapsed d reqs rule: pollJob.induct)
  case (1 env job i elapsed d reqs)
  show ?case
  proof (cases "elapsed > timeoutMs")
    case True
    with "1.prems" show ?thesis by (simp add: pollJob_timeout)
  next
    case False
    then have le: "elapsed \<le> timeoutMs" by simp
    show ?thesis
    proof (cases "statusRes env i")
      case (Rejected m)
      with le "1.prems" show ?thesis by (simp add: pollJob_rejected)
    next
      case (NotOk body)
      with le "1.prems" show ?thesis by (simp add: pollJob_not_ok)
    next
      case (Ok st)
      have st: "generationProgress (show_status st d) \<le> 99"
        using "1.prems" by (rule show_status_progress)
      show ?thesis
      proof (cases "js_status st = ''completed''")
        case True
        with le Ok st show ?thesis by (simp add: pollJob_completed)
      next
        case nc: False
        show ?thesis
        proof (cases "js_status st = ''failed''")
          case True
          with le Ok st show ?thesis by (simp add: pollJob_failed)
        next
          case nf: False
          from "1.IH" [OF False refl Ok refl nc nf st] pollJob_again [OF le Ok nc nf]
          show ?thesis by simp
        qed
      qed
    qed
  qed
qed

lemma show_status_display:
  "(show_status st d)\<lparr>generationProgress := 0, generationStep := []\<rparr>
     = d\<lparr>generationProgress := 0, generationStep := []\<rparr>"
  by (simp add: show_status_def Let_def split: option.split)

lemma pollJob_display:
  "(fst (pollJob env job i elapsed d reqs))\<lparr>generationProgress := 0, generationStep := []\<rparr>
     = d\<lparr>generationProgress := 0, generationStep := []\<rparr>"
proof (induction env job i elapsed d reqs rule: pollJob.induct)
  case (1 env job i elapsed d reqs)
  show ?case
  proof (cases "elapsed > timeoutMs")
    case True
    then show ?thesis by (simp add: pollJob_timeout)
  next
    case False
    then have le: "elapsed \<le> timeoutMs" by simp
    show ?thesis
    proof (cases "statusRes env i")
      case (Rejected m)
      with le show ?thesis by (simp add: pollJob_rejected)
    next
      case (NotOk body)
      with le show ?thesis by (simp add: pollJob_not_ok)
    next
      case (Ok st)
      show ?thesis
      proof (cases "js_status st = ''completed''")
        case True
        with le Ok show ?thesis by (simp add: pollJob_completed show_status_display)
      next
        case nc: False
        show ?thesis
        proof (cases "js_status st = ''failed''")
          case True
          with le Ok show ?thesis by (simp add: pollJob_failed show_status_display)
        next
          case nf: False
          from "1.IH" [OF False refl Ok refl nc nf] pollJob_again [OF le Ok nc nf]
          show ?thesis by (simp add: show_status_display)
        qed
      qed
    qed
  qed
qed

lemma pollJob_generatedBook:
  "generatedBook (fst (pollJob env job i elapsed d reqs)) = generatedBook d"
proof -
  have "generatedBook ((fst (pollJob env job i elapsed d reqs))
          \<lparr>generationProgress := 0, generationStep := []\<rparr>)
        = generatedBook (d\<lparr>generationProgress := 0, generationStep := []\<rparr>)"
    by (simp only: pollJob_display)
  then show ?thesis by simp
qed

lemma show_steps_eval:
  "show_steps d = d\<lparr>generationStep := ''Creating cover prompt...'', generationProgress := 95\<rparr>"
  by (simp add: show_steps_def steps_def)

lemma production_env_fields:
  "access_token (production_env a) = Some ''jwt''"
  "allowMock (production_env a) = False"
  "NEXT_PUBLIC_API_URL (production_env a) = Some ''https://api.example.com''"
  "startRes (production_env a) = Ok (Some ''job-1'')"
  "statusRes (production_env a) = a"
  "syncRes (production_env a) = NotOk ''Internal Server Error''"
  "latency (production_env a) = no_latency"
  by (simp_all add: production_env_def)

lemma sample_dashboard_fields:
  "plan (sample_dashboard p) = p"
  "selectedOpportunity (sample_dashboard p) = Some (recommended_opportunity mockResearch)"
  "generatedBook (sample_dashboard p) = None"
  "generationProgress (sample_dashboard p) = 0"
  by (simp_all add: sample_dashboard_def)

lemma round_start_lower: "1800 * i \<le> round_start env i"
  by (induction i) auto

lemma round_start_reached: "round_start env i \<le> timeoutMs \<Longrightarrow> i \<le> 500"
  using round_start_lower [of i env] by (simp add: timeoutMs_def)

lemma pollJob_reached_rounds:
  "elapsed = round_start env i \<Longrightarrow>
   \<forall>j. round_start env j \<le> timeoutMs \<longrightarrow> still_running (statusRes env j) \<Longrightarrow>
   snd (snd (pollJob env job i elapsed d reqs)) = Threw ''Generation timed out. Please try again.''"
proof (induction env job i elapsed d reqs rule: pollJob.induct)
  case (1 env job i elapsed d reqs)
  show ?case
  proof (cases "elapsed > timeoutMs")
    case True
    then show ?thesis by (simp add: pollJob_timeout)
  next
    case False
    then have le: "elapsed \<le> timeoutMs" by simp
    with "1.prems" have "still_running (statusRes env i)" by simp
    then obtain st where Ok: "statusRes env i = Ok st"
      and nc: "js_status st \<noteq> ''completed''" and nf: "js_status st \<noteq> ''failed''"
      by (auto simp: still_running_def split: fetch_result.splits)
    have next_round: "elapsed + 1800 + latency env i = round_start env (Suc i)"
      using "1.prems"(1) by simp
    from "1.IH" [OF False refl Ok refl nc nf next_round "1.prems"(2)]
      pollJob_again [OF le Ok nc nf]
    show ?thesis by simp
  qed
qed

text \<open>
  C2, as stated, fails by one round: the clock is read at the head of a round only. Here
  the second round begins exactly \<open>timeoutMs\<close> (15 minutes) after the start, which is not
  more than the timeout; its timer runs another 1800 ms, and the completed status read
  after that is returned. The timeout had elapsed before a terminal state was observed,
  and the poller ends with the result, not with the timeout error.
\<close>

theorem late_status_read_counterexample:
  "statusRes slow_env 0 = Ok running_status
   \<and> round_start slow_env (Suc 0) = timeoutMs
   \<and> statusRes slow_env (Suc 0) = Ok completed_status
   \<and> js_status completed_status = ''completed''
   \<and> pollJob slow_env ''job-1'' 0 0 (sample_dashboard Pro) []
       = (show_status completed_status (show_status running_status (sample_dashboard Pro)),
          [Get ''https://api.example.com/api/books/jobs/job-1'',
           Get ''https://api.example.com/api/books/jobs/job-1''],
          Returned (Some (mockBook\<lparr>book_id := Some ''book-1''\<rparr>)))"
proof -
  have r0: "statusRes slow_env 0 = Ok running_status"
    and r1: "statusRes slow_env (Suc 0) = Ok completed_status"
    and l0: "latency slow_env 0 = 898200"
    by (simp_all add: slow_env_def production_env_def)
  have url: "status_url slow_env ''job-1'' = ''https://api.example.com/api/books/jobs/job-1''"
    by (simp add: status_url_def api_url_def or_else_def slow_env_def production_env_def)
  have nc: "js_status running_status \<noteq> ''completed''" and nf: "js_status running_status \<noteq> ''failed''"
    and c: "js_status completed_status = ''completed''"
    and res: "js_result completed_status = Some (mockBook\<lparr>book_id := Some ''book-1''\<rparr>)"
    by (simp_all add: running_status_def completed_status_def)
  have le0: "(0::nat) \<le> timeoutMs" by simp
  have le1: "0 + 1800 + latency slow_env 0 \<le> timeoutMs" by (simp add: l0 timeoutMs_def)
  have start: "round_start slow_env (Suc 0) = timeoutMs" by (simp add: l0 timeoutMs_def)
  have "pollJob slow_env ''job-1'' 0 0 (sample_dashboard Pro) []
      = pollJob slow_env ''job-1'' (Suc 0) (0 + 1800 + latency slow_env 0)
          (show_status running_status (sample_dashboard Pro)) ([] @ [Get (status_url slow_env ''job-1'')])"
    by (rule pollJob_again [OF le0 r0 nc nf])
  also have "\<dots> = (show_status completed_status (show_status running_status (sample_dashboard Pro)),
      ([] @ [Get (status_url slow_env ''job-1'')]) @ [Get (status_url slow_env ''job-1'')],
      Returned (js_result completed_status))"
    by (rule pollJob_completed [OF le1 r1 c])
  finally show ?thesis using r0 r1 c start by (simp add: url res)
qed

text \<open>
  C2 (amended): the polling loop ends for every job and every behaviour of the server. It
  sends at most 501 status requests, and all it ever sends are reads of the job's status
  (nothing that cancels the job: the abort is on the caller's side only). The clock is
  read at the head of each round: when every round that begins within \<open>timeoutMs\<close>
  (15 minutes) of the start reads a status that is neither \<open>completed\<close> nor \<open>failed\<close>
  (rounds 0 to 500 at most), the loop ends with the error
  \<open>Generation timed out. Please try again.\<close>, whatever the job does later, and
  \<open>generateBook\<close> catches it: in production it returns normally with that message in
  \<open>error\<close>, the wizard back at \<open>research_done\<close> and no book shown. A round that begins
  more than \<open>timeoutMs\<close> after the start ends the loop with that error, whatever the
  server would answer; a round that begins within \<open>timeoutMs\<close> and reads a terminal
  status returns the result or throws the job's error, also when the 15 minutes pass
  during the round.
\<close>

theorem poller_times_out:
  "(\<exists>n\<le>501. fst (snd (pollJob env job 0 0 d reqs)) = reqs @ replicate n (Get (status_url env job)))
   \<and> ((\<forall>i. round_start env i \<le> timeoutMs \<longrightarrow> still_running (statusRes env i)) \<longrightarrow>
        snd (snd (pollJob env job 0 0 d reqs)) = Threw ''Generation timed out. Please try again.'')
   \<and> ((\<forall>i\<le>500. still_running (statusRes env i)) \<longrightarrow>
        snd (snd (pollJob env job 0 0 d reqs)) = Threw ''Generation timed out. Please try again.'')
   \<and> ((\<forall>i. round_start env i \<le> timeoutMs \<longrightarrow> still_running (statusRes env i))
        \<and> selectedOpportunity d = Some opp
        \<and> async_path (plan d) \<and> truthy (access_token env) \<and> startRes env = Ok (Some job)
        \<and> job \<noteq> [] \<and> \<not> allowMock env \<longrightarrow>
        (\<exists>d' reqs'. generateBook env d = Finished d' reqs'
           \<and> error d' = Some ''Generation timed out. Please try again.''
           \<and> step d' = ResearchDone \<and> generatedBook d' = generatedBook d))
   \<and> timeoutMs = 15 * 60 * 1000
   \<and> (elapsed > timeoutMs \<longrightarrow>
        pollJob env job i elapsed d reqs = (d, reqs, Threw ''Generation timed out. Please try again.''))
   \<and> (\<forall>st. elapsed \<le> timeoutMs \<and> statusRes env i = Ok st \<and> js_status st = ''completed'' \<longrightarrow>
        snd (snd (pollJob env job i elapsed d reqs)) = Returned (js_result st))
   \<and> (\<forall>st. elapsed \<le> timeoutMs \<and> statusRes env i = Ok st \<and> js_status st = ''failed'' \<longrightarrow>
        snd (snd (pollJob env job i elapsed d reqs))
          = Threw (or_else (js_error st) ''Generation failed''))"
proof -
  have bound: "\<exists>n\<le>501. fst (snd (pollJob env job 0 0 d reqs))
      = reqs @ replicate n (Get (status_url env job))"
    using pollJob_requests [of 0 env job 0 d reqs] by (simp add: rounds_left_0)
  have reached: "(\<forall>i. round_start env i \<le> timeoutMs \<longrightarrow> still_running (statusRes env i)) \<longrightarrow>
        snd (snd (pollJob env job 0 0 d reqs)) = Threw ''Generation timed out. Please try again.''"
    using pollJob_reached_rounds [of 0 env 0 job d reqs] by simp
  have first: "(\<forall>i\<le>500. still_running (statusRes env i)) \<longrightarrow>
        snd (snd (pollJob env job 0 0 d reqs)) = Threw ''Generation timed out. Please try again.''"
    using reached round_start_reached [of env] by blast
  have caught: "(\<forall>i. round_start env i \<le> timeoutMs \<longrightarrow> still_running (statusRes env i))
        \<and> selectedOpportunity d = Some opp
        \<and> async_path (plan d) \<and> truthy (access_token env) \<and> startRes env = Ok (Some job)
        \<and> job \<noteq> [] \<and> \<not> allowMock env \<longrightarrow>
        (\<exists>d' reqs'. generateBook env d = Finished d' reqs'
           \<and> error d' = Some ''Generation timed out. Please try again.''
           \<and> step d' = ResearchDone \<and> generatedBook d' = generatedBook d)"
  proof
    assume a: "(\<forall>i. round_start env i \<le> timeoutMs \<longrightarrow> still_running (statusRes env i))
        \<and> selectedOpportunity d = Some opp
        \<and> async_path (plan d) \<and> truthy (access_token env) \<and> startRes env = Ok (Some job)
        \<and> job \<noteq> [] \<and> \<not> allowMock env"
    let ?d0 = "show_steps (d\<lparr>step := Generating, generationProgress := 0, error := None\<rparr>)"
    let ?start = "[Post (api_url env @ ''/api/books/generate-async'') (build_payload ?d0 opp)]"
    obtain d1 reqs1 out where p: "pollJob env job 0 0 ?d0 ?start = (d1, reqs1, out)"
      by (cases "pollJob env job 0 0 ?d0 ?start") auto
    from a have "snd (snd (pollJob env job 0 0 ?d0 ?start))
        = Threw ''Generation timed out. Please try again.''"
      by (intro pollJob_reached_rounds) simp_all
    with p have out: "out = Threw ''Generation timed out. Please try again.''" by simp
    have plan0: "plan ?d0 = plan d" by (simp add: show_steps_eval)
    have tg: "try_generate env opp ?d0 = (d1, reqs1, out)"
      using a p plan0 by (simp add: try_generate_def Let_def truthy_def or_else_def)
    have gb: "generatedBook d1 = generatedBook d"
      using pollJob_generatedBook [of env job 0 0 ?d0 ?start] p by (simp add: show_steps_eval)
    show "\<exists>d' reqs'. generateBook env d = Finished d' reqs'
           \<and> error d' = Some ''Generation timed out. Please try again.''
           \<and> step d' = ResearchDone \<and> generatedBook d' = generatedBook d"
      using a tg out gb by (simp add: generateBook_def Let_def)
  qed
  have fifteen: "timeoutMs = 15 * 60 * 1000" by (simp add: timeoutMs_def)
  have after: "elapsed > timeoutMs \<longrightarrow>
        pollJob env job i elapsed d reqs = (d, reqs, Threw ''Generation timed out. Please try again.'')"
    using pollJob_timeout [of elapsed env job i d reqs] by blast
  have late: "\<forall>st. elapsed \<le> timeoutMs \<and> statusRes env i = Ok st \<and> js_status st = ''completed'' \<longrightarrow>
        snd (snd (pollJob env job i elapsed d reqs)) = Returned (js_result st)"
    by (simp add: pollJob_completed)
  have late_failed: "\<forall>st. elapsed \<le> timeoutMs \<and> statusRes env i = Ok st \<and> js_status st = ''failed'' \<longrightarrow>
        snd (snd (pollJob env job i elapsed d reqs))
          = Threw (or_else (js_error st) ''Generation failed'')"
    by (simp add: pollJob_failed)
  from bound reached first caught fifteen after late late_failed show ?thesis by blast
qed

theorem poller_times_out_witness:
  "snd (snd (pollJob (production_env always_running) ''job-1'' 0 0 (sample_dashboard Pro) []))
     = Threw ''Generation timed out. Please try again.''
   \<and> snd (snd (pollJob (production_env completes_after_deadline) ''job-1'' 0 0
                (sample_dashboard Pro) []))
     = Threw ''Generation timed out. Please try again.''
   \<and> (\<exists>d' reqs'. generateBook (production_env always_running) (sample_dashboard Pro) = Finished d' reqs'
          \<and> error d' = Some ''Generation timed out. Please try again.''
          \<and> step d' = ResearchDone \<and> generatedBook d' = None)
   \<and> pollJob (production_env always_running) ''job-1'' 501 901800 (sample_dashboard Pro) []
     = (sample_dashboard Pro, [], Threw ''Generation timed out. Please try again.'')
   \<and> snd (snd (pollJob (production_env transient_then_completed) ''job-1'' 1 900000
                (sample_dashboard Pro) []))
     = Returned (Some (mockBook\<lparr>book_id := Some ''book-1''\<rparr>))
   \<and> snd (snd (pollJob (production_env running_then_failed) ''job-1'' 1 900000
                (sample_dashboard Pro) []))
     = Threw ''Outline generation failed''"
proof -
  have a: "snd (snd (pollJob (production_env always_running) ''job-1'' 0 0 (sample_dashboard Pro) []))
       = Threw ''Generation timed out. Please try again.''
     \<and> (\<exists>d' reqs'. generateBook (production_env always_running) (sample_dashboard Pro) = Finished d' reqs'
          \<and> error d' = Some ''Generation timed out. Please try again.''
          \<and> step d' = ResearchDone \<and> generatedBook d' = None)
     \<and> pollJob (production_env always_running) ''job-1'' 501 901800 (sample_dashboard Pro) []
       = (sample_dashboard Pro, [], Threw ''Generation timed out. Please try again.'')"
    using poller_times_out [of "production_env always_running" "''job-1''" "sample_dashboard Pro" "[]"
        "recommended_opportunity mockResearch" 901800 501]
    by (simp add: production_env_def always_running_def still_running_def running_status_def
        sample_dashboard_def async_path_def truthy_def)
  have b: "snd (snd (pollJob (production_env completes_after_deadline) ''job-1'' 0 0
                (sample_dashboard Pro) []))
     = Threw ''Generation timed out. Please try again.''"
    using poller_times_out [of "production_env completes_after_deadline" "''job-1''"
        "sample_dashboard Pro" "[]" "recommended_opportunity mockResearch" 0 0]
    by (simp add: production_env_fields completes_after_deadline_def still_running_def
        running_status_def)
  have c: "snd (snd (pollJob (production_env transient_then_completed) ''job-1'' 1 900000
                (sample_dashboard Pro) []))
     = Returned (Some (mockBook\<lparr>book_id := Some ''book-1''\<rparr>))"
    using poller_times_out [of "production_env transient_then_completed" "''job-1''"
        "sample_dashboard Pro" "[]" "recommended_opportunity mockResearch" 900000 1]
    by (simp add: production_env_fields completed_status_def timeoutMs_def)
  have d: "snd (snd (pollJob (production_env running_then_failed) ''job-1'' 1 900000
                (sample_dashboard Pro) []))
     = Threw ''Outline generation failed''"
    using poller_times_out [of "production_env running_then_failed" "''job-1''"
        "sample_dashboard Pro" "[]" "recommended_opportunity mockResearch" 900000 1]
    by (simp add: production_env_fields failed_status_def or_else_def timeoutMs_def)
  from a b c d show ?thesis by blast
qed

text \<open>
  C1, as stated, fails: the first status request is answered with a response that is not
  \<open>ok\<close>, the second (1800 ms later, well before the timeout) would be answered by the
  completed job, and the loop has already ended with \<open>Could not read generation status\<close>
  after the first; \<open>generateBook\<close> shows that message and no book.
\<close>

theorem transient_fetch_failure_counterexample:
  "statusRes (production_env transient_then_completed) 0 = NotOk ''Bad Gateway''
   \<and> statusRes (production_env transient_then_completed) (Suc 0) = Ok completed_status
   \<and> js_status completed_status = ''completed''
   \<and> 0 + 1800 + latency (production_env transient_then_completed) 0 \<le> timeoutMs
   \<and> pollJob (production_env transient_then_completed) ''job-1'' 0 0 (sample_dashboard Pro) []
       = (sample_dashboard Pro, [Get ''https://api.example.com/api/books/jobs/job-1''],
          Threw ''Could not read generation status'')
   \<and> (case generateBook (production_env transient_then_completed) (sample_dashboard Pro) of
         Finished d' reqs' \<Rightarrow>
           error d' = Some ''Could not read generation status'' \<and> generatedBook d' = None
       | Uncaught m d' reqs' \<Rightarrow> False)"
proof -
  have le: "(0::nat) \<le> timeoutMs" by simp
  have r0: "statusRes (production_env transient_then_completed) 0 = NotOk ''Bad Gateway''"
    by (simp add: production_env_def)
  note p = pollJob_not_ok [OF le r0]
  show ?thesis
    by (simp add: p generateBook_def try_generate_def Let_def show_steps_eval
        production_env_fields sample_dashboard_fields completed_status_def no_latency_def
        timeoutMs_def status_url_def api_url_def or_else_def truthy_def async_path_def)
qed

text \<open>
  C1 (amended): a failed status-fetch attempt is not retried. At whatever round before the
  timeout a status request is answered with a response that is not \<open>ok\<close>, the loop ends
  at once with the error \<open>Could not read generation status\<close>, and when the request itself
  is rejected (network), with the rejection's own message; in both cases the display is
  left as it was and no further request is sent, whatever later requests would have been
  answered.
\<close>

theorem failed_status_fetch_aborts_poll:
  "(elapsed \<le> timeoutMs \<and> statusRes env i = NotOk body \<longrightarrow>
      pollJob env job i elapsed d reqs =
        (d, reqs @ [Get (status_url env job)], Threw ''Could not read generation status''))
   \<and> (elapsed \<le> timeoutMs \<and> statusRes env i = Rejected m \<longrightarrow>
      pollJob env job i elapsed d reqs = (d, reqs @ [Get (status_url env job)], Threw m))"
  by (simp add: pollJob_not_ok pollJob_rejected)

theorem failed_status_fetch_aborts_poll_witness:
  "pollJob (production_env transient_then_completed) ''job-2'' 0 0 (sample_dashboard Enterprise) []
     = (sample_dashboard Enterprise, [Get (status_url (production_env transient_then_completed) ''job-2'')],
        Threw ''Could not read generation status'')
   \<and> pollJob (production_env offline) ''job-2'' 0 0 (sample_dashboard Enterprise) []
     = (sample_dashboard Enterprise, [Get (status_url (production_env offline) ''job-2'')],
        Threw ''Failed to fetch'')"
  using failed_status_fetch_aborts_poll [of 0 "production_env transient_then_completed" 0
      "''Bad Gateway''" "''job-2''" "sample_dashboard Enterprise" "[]"]
    failed_status_fetch_aborts_poll [of 0 "production_env offline" 0 _ "''job-2''"
      "sample_dashboard Enterprise" "[]" "''Failed to fetch''"]
  by (simp add: production_env_fields offline_def)

text \<open>
  C6: in a round that begins before the timeout and whose status request is answered with
  a body, the loop returns the stored result and stops when the status is \<open>completed\<close>;
  throws the stored error (\<open>Generation failed\<close> when none is stored) and stops when it is
  \<open>failed\<close>; and otherwise goes on to the next round, 1800 ms plus the round's latency
  later. The displayed progress, when the body carries a number \<open>p\<close>, becomes
  \<open>min 99 (max p 10)\<close>, which is at most 99; the displayed step becomes the body's
  non-empty step; and a display that showed at most 99 shows at most 99 after the round
  and when the loop ends.
\<close>

theorem poller_round:
  "elapsed \<le> timeoutMs \<and> statusRes env i = Ok st \<longrightarrow>
     (js_status st = ''completed'' \<longrightarrow>
        pollJob env job i elapsed d reqs =
          (show_status st d, reqs @ [Get (status_url env job)], Returned (js_result st)))
   \<and> (js_status st = ''failed'' \<longrightarrow>
        pollJob env job i elapsed d reqs =
          (show_status st d, reqs @ [Get (status_url env job)],
           Threw (or_else (js_error st) ''Generation failed'')))
   \<and> (\<forall>e. js_status st = ''failed'' \<and> js_error st = Some e \<and> e \<noteq> [] \<longrightarrow>
        snd (snd (pollJob env job i elapsed d reqs)) = Threw e)
   \<and> (js_status st \<noteq> ''completed'' \<and> js_status st \<noteq> ''failed'' \<longrightarrow>
        pollJob env job i elapsed d reqs =
          pollJob env job (Suc i) (elapsed + 1800 + latency env i) (show_status st d)
            (reqs @ [Get (status_url env job)]))
   \<and> (\<forall>p. js_progress st = Some p \<longrightarrow>
        generationProgress (show_status st d) = min 99 (max p 10)
        \<and> generationProgress (show_status st d) \<le> 99)
   \<and> (\<forall>s. js_step st = Some s \<and> s \<noteq> [] \<longrightarrow> generationStep (show_status st d) = s)
   \<and> (generationProgress d \<le> 99 \<longrightarrow>
        generationProgress (show_status st d) \<le> 99
        \<and> generationProgress (fst (pollJob env job i elapsed d reqs)) \<le> 99)"
proof (intro impI)
  assume a: "elapsed \<le> timeoutMs \<and> statusRes env i = Ok st"
  then have le: "elapsed \<le> timeoutMs" and ok: "statusRes env i = Ok st" by simp_all
  have step: "\<forall>s. js_step st = Some s \<and> s \<noteq> [] \<longrightarrow> generationStep (show_status st d) = s"
    by (simp add: show_status_def Let_def truthy_def or_else_def split: option.split)
  have failed: "\<forall>e. js_status st = ''failed'' \<and> js_error st = Some e \<and> e \<noteq> [] \<longrightarrow>
        snd (snd (pollJob env job i elapsed d reqs)) = Threw e"
    by (simp add: pollJob_failed [OF le ok] or_else_def)
  show "(js_status st = ''completed'' \<longrightarrow>
        pollJob env job i elapsed d reqs =
          (show_status st d, reqs @ [Get (status_url env job)], Returned (js_result st)))
   \<and> (js_status st = ''failed'' \<longrightarrow>
        pollJob env job i elapsed d reqs =
          (show_status st d, reqs @ [Get (status_url env job)],
           Threw (or_else (js_error st) ''Generation failed'')))
   \<and> (\<forall>e. js_status st = ''failed'' \<and> js_error st = Some e \<and> e \<noteq> [] \<longrightarrow>
        snd (snd (pollJob env job i elapsed d reqs)) = Threw e)
   \<and> (js_status st \<noteq> ''completed'' \<and> js_status st \<noteq> ''failed'' \<longrightarrow>
        pollJob env job i elapsed d reqs =
          pollJob env job (Suc i) (elapsed + 1800 + latency env i) (show_status st d)
            (reqs @ [Get (status_url env job)]))
   \<and> (\<forall>p. js_progress st = Some p \<longrightarrow>
        generationProgress (show_status st d) = min 99 (max p 10)
        \<and> generationProgress (show_status st d) \<le> 99)
   \<and> (\<forall>s. js_step st = Some s \<and> s \<noteq> [] \<longrightarrow> generationStep (show_status st d) = s)
   \<and> (generationProgress d \<le> 99 \<longrightarrow>
        generationProgress (show_status st d) \<le> 99
        \<and> generationProgress (fst (pollJob env job i elapsed d reqs)) \<le> 99)"
    using pollJob_completed [OF le ok] pollJob_failed [OF le ok] pollJob_again [OF le ok]
      step failed show_status_progress [of d st] pollJob_progress [of d env job i elapsed reqs]
    by (simp add: show_status_clamp)
qed

theorem poller_round_witness:
  "pollJob (production_env transient_then_completed) ''job-1'' 1 1800 (sample_dashboard Pro) []
     = (show_status completed_status (sample_dashboard Pro),
        [Get ''https://api.example.com/api/books/jobs/job-1''],
        Returned (Some (mockBook\<lparr>book_id := Some ''book-1''\<rparr>)))
   \<and> generationProgress (show_status completed_status (sample_dashboard Pro)) = 99
   \<and> generationStep (show_status completed_status (sample_dashboard Pro)) = ''Done''
   \<and> pollJob (production_env running_then_failed) ''job-1'' 0 0 (sample_dashboard Pro) []
     = pollJob (production_env running_then_failed) ''job-1'' 1 1800
         (show_status running_status (sample_dashboard Pro))
         [Get ''https://api.example.com/api/books/jobs/job-1'']
   \<and> generationProgress (show_status running_status (sample_dashboard Pro)) = 40
   \<and> pollJob (production_env running_then_failed) ''job-1'' 1 1800
         (show_status running_status (sample_dashboard Pro))
         [Get ''https://api.example.com/api/books/jobs/job-1'']
     = (show_status failed_status (show_status running_status (sample_dashboard Pro)),
        [Get ''https://api.example.com/api/books/jobs/job-1'',
         Get ''https://api.example.com/api/books/jobs/job-1''],
        Threw ''Outline generation failed'')"
proof -
  have completed:
    "pollJob (production_env transient_then_completed) ''job-1'' 1 1800 (sample_dashboard Pro) []
       = (show_status completed_status (sample_dashboard Pro),
          [Get ''https://api.example.com/api/books/jobs/job-1''],
          Returned (Some (mockBook\<lparr>book_id := Some ''book-1''\<rparr>)))
     \<and> generationProgress (show_status completed_status (sample_dashboard Pro)) = 99
     \<and> generationStep (show_status completed_status (sample_dashboard Pro)) = ''Done''"
    using poller_round [of 1800 "production_env transient_then_completed" 1 completed_status
        "''job-1''" "sample_dashboard Pro" "[]"]
    by (simp add: production_env_fields completed_status_def timeoutMs_def
        status_url_def api_url_def or_else_def show_status_def truthy_def)
  have running:
    "pollJob (production_env running_then_failed) ''job-1'' 0 0 (sample_dashboard Pro) []
       = pollJob (production_env running_then_failed) ''job-1'' 1 1800
           (show_status running_status (sample_dashboard Pro))
           [Get ''https://api.example.com/api/books/jobs/job-1'']
     \<and> generationProgress (show_status running_status (sample_dashboard Pro)) = 40"
    using poller_round [of 0 "production_env running_then_failed" 0 running_status
        "''job-1''" "sample_dashboard Pro" "[]"]
    by (simp add: production_env_fields running_status_def timeoutMs_def no_latency_def
        status_url_def api_url_def or_else_def)
  have failed:
    "pollJob (production_env running_then_failed) ''job-1'' 1 1800
         (show_status running_status (sample_dashboard Pro))
         [Get ''https://api.example.com/api/books/jobs/job-1'']
     = (show_status failed_status (show_status running_status (sample_dashboard Pro)),
        [Get ''https://api.example.com/api/books/jobs/job-1'',
         Get ''https://api.example.com/api/books/jobs/job-1''],
        Threw ''Outline generation failed'')"
    using poller_round [of 1800 "production_env running_then_failed" 1 failed_status
        "''job-1''" "show_status running_status (sample_dashboard Pro)"
        "[Get ''https://api.example.com/api/books/jobs/job-1'']"]
    by (simp add: production_env_fields failed_status_def timeoutMs_def
        status_url_def api_url_def or_else_def)
  from completed running failed show ?thesis by blast
qed

subsection \<open>The plan gate\<close>






subsection \<open>Research\<close>

text \<open>
  C7 does not hold of the research flow: when the request to \<open>/api/research/analyze\<close>
  fails (a response that is not \<open>ok\<close>, or a rejected fetch), \<open>runResearch\<close> shows the
  hardcoded \<open>mockResearch\<close> as the research result, selects its recommended opportunity
  and leaves \<open>error\<close> empty, whatever \<open>NODE_ENV\<close> is.
\<close>

theorem runResearch_failure_shows_mock:
  "runResearch (NotOk body) d =
     d\<lparr>step := ResearchDone, error := None, research := Some mockResearch,
        selectedOpportunity := Some (recommended_opportunity mockResearch)\<rparr>
   \<and> runResearch (Rejected m) d =
     d\<lparr>step := ResearchDone, error := None, research := Some mockResearch,
        selectedOpportunity := Some (recommended_opportunity mockResearch)\<rparr>"
  by (simp add: runResearch_def Let_def)

text \<open>
  The generation flow, for comparison, guards its fallback with \<open>NODE_ENV\<close>: in
  production an error thrown in the \<open>try\<close> is shown and no mock book is.
\<close>

lemma generateBook_production_propagates:
  "selectedOpportunity d = Some opp \<Longrightarrow> \<not> allowMock env \<Longrightarrow>
   try_generate env opp (show_steps (d\<lparr>step := Generating, generationProgress := 0, error := None\<rparr>))
     = (d1, reqs, Threw message) \<Longrightarrow>
   generateBook env d = Finished (d1\<lparr>error := Some message, step := ResearchDone\<rparr>) reqs"
  by (simp add: generateBook_def Let_def)

subsection \<open>The job store\<close>

lemma select_job_own_rows:
  "select_job uid jid db = select_job uid jid (filter (owns uid) db)"
  by (auto simp: select_job_def intro: filter_cong)

lemma get_job_own_rows: "get_job uid jid db = get_job uid jid (filter (owns uid) db)"
  unfolding get_job_def by (subst select_job_own_rows) simp

lemma get_job_NotFound:
  "\<not> (\<exists>r \<in> set db. job_id r = Some jid \<and> job_user_id r = Some u) \<Longrightarrow>
   get_job (Some u) jid db = NotFound"
proof -
  assume "\<not> (\<exists>r \<in> set db. job_id r = Some jid \<and> job_user_id r = Some u)"
  then have "select_job (Some u) jid db = []"
    by (auto simp: select_job_def owns_def filter_empty_conv)
  then show ?thesis by (simp add: get_job_def)
qed

text \<open>
  C8: a lookup of job \<open>jid\<close> by owner \<open>u\<close> finds nothing when the table holds no job
  with that id owned by \<open>u\<close>, whether no job has that id or one has and belongs to someone
  else; the outcome of \<open>u\<close>'s lookup is the same in any two tables that hold the same
  rows of \<open>u\<close>, so the jobs of other owners, present or absent, make no difference to it;
  and a job that is found belongs to \<open>u\<close>.
\<close>

theorem job_lookup_hides_other_owners:
  "(\<not> (\<exists>r \<in> set db. job_id r = Some jid \<and> job_user_id r = Some u) \<longrightarrow>
      get_job (Some u) jid db = NotFound)
   \<and> (filter (owns (Some u)) db = filter (owns (Some u)) db' \<longrightarrow>
      get_job (Some u) jid db = get_job (Some u) jid db')
   \<and> (\<forall>r. get_job (Some u) jid db = Found r \<longrightarrow>
      r \<in> set db \<and> job_id r = Some jid \<and> job_user_id r = Some u)"
proof -
  have absent: "\<not> (\<exists>r \<in> set db. job_id r = Some jid \<and> job_user_id r = Some u) \<longrightarrow>
      get_job (Some u) jid db = NotFound"
    using get_job_NotFound [of db jid u] by blast
  have same: "filter (owns (Some u)) db = filter (owns (Some u)) db' \<longrightarrow>
      get_job (Some u) jid db = get_job (Some u) jid db'"
    using get_job_own_rows [of "Some u" jid db] get_job_own_rows [of "Some u" jid db'] by simp
  have found: "\<forall>r. get_job (Some u) jid db = Found r \<longrightarrow>
      r \<in> set db \<and> job_id r = Some jid \<and> job_user_id r = Some u"
  proof (intro allI impI)
    fix r assume "get_job (Some u) jid db = Found r"
    then obtain rs where "select_job (Some u) jid db = r # rs"
      by (auto simp: get_job_def split: list.splits)
    then have "r \<in> set (select_job (Some u) jid db)" by simp
    then show "r \<in> set db \<and> job_id r = Some jid \<and> job_user_id r = Some u"
      by (auto simp: select_job_def owns_def)
  qed
  from absent same found show ?thesis by blast
qed

theorem job_lookup_hides_other_owners_witness:
  "get_job (Some ''u1'') ''j1'' [] = NotFound
   \<and> get_job (Some ''u1'') ''j1'' [completed_job ''j1'' ''u2''] = NotFound
   \<and> get_job (Some ''u1'') ''j1'' [] = get_job (Some ''u1'') ''j1'' [completed_job ''j1'' ''u2'']
   \<and> get_job (Some ''u2'') ''j1'' [completed_job ''j1'' ''u2''] = Found (completed_job ''j1'' ''u2'')"
proof -
  have f: "get_job (Some ''u2'') ''j1'' [completed_job ''j1'' ''u2''] = Found (completed_job ''j1'' ''u2'')"
    by (simp add: get_job_def select_job_def owns_def completed_job_def)
  show ?thesis
    using job_lookup_hides_other_owners [of "[]" "''j1''" "''u1''" "[completed_job ''j1'' ''u2'']"]
      job_lookup_hides_other_owners [of "[completed_job ''j1'' ''u2'']" "''j1''" "''u1''" "[]"]
      job_lookup_hides_other_owners [of "[completed_job ''j1'' ''u2'']" "''j1''" "''u2''" "[]"] f
    by (simp add: owns_def completed_job_def)
qed


lemma update_row_accepts:
  "owns uid (updated_row now sets r) \<Longrightarrow> constraint_violation (updated_row now sets r) = None \<Longrightarrow>
   user_exists profiles (updated_row now sets r) \<Longrightarrow>
   update_row uid profiles now sets r = Inr (updated_row now sets r)"
  by (simp add: update_row_def Let_def)


lemma constraint_violation_None:
  "constraint_violation r = None \<longleftrightarrow>
     job_id r \<noteq> None \<and> job_user_id r \<noteq> None
     \<and> (\<exists>s. job_status r = Some s \<and> s \<in> set [''queued'', ''running'', ''completed'', ''failed''])
     \<and> (\<exists>p. job_progress r = Some p \<and> 0 \<le> p \<and> p \<le> 100)"
  by (auto simp: constraint_violation_def not_null_ok_def status_check_def progress_check_def
      split: option.splits)

lemma update_row_rejects:
  "\<not> (owns uid (updated_row now sets r) \<and> constraint_violation (updated_row now sets r) = None
      \<and> user_exists profiles (updated_row now sets r)) \<Longrightarrow>
   \<exists>e. update_row uid profiles now sets r = Inl e"
  by (auto simp: update_row_def Let_def split: option.splits)

lemma update_job_map:
  "\<forall>r \<in> set db. job_id r = Some jid \<and> owns uid r \<longrightarrow>
     owns uid (updated_row now sets r) \<and> constraint_violation (updated_row now sets r) = None
     \<and> user_exists profiles (updated_row now sets r) \<Longrightarrow>
   update_job uid profiles now jid sets db =
     Inr (map (\<lambda>r. if job_id r = Some jid \<and> owns uid r then updated_row now sets r else r) db)"
  by (induction db) (simp_all add: update_row_accepts)

lemma update_job_rejects:
  "r \<in> set db \<Longrightarrow> job_id r = Some jid \<Longrightarrow> owns uid r \<Longrightarrow>
   \<not> (owns uid (updated_row now sets r) \<and> constraint_violation (updated_row now sets r) = None
      \<and> user_exists profiles (updated_row now sets r)) \<Longrightarrow>
   \<exists>e. update_job uid profiles now jid sets db = Inl e"
proof (induction db)
  case Nil
  then show ?case by simp
next
  case (Cons x xs)
  show ?case
  proof (cases "x = r")
    case True
    with Cons.prems update_row_rejects [of uid now sets r profiles] show ?thesis by auto
  next
    case False
    with Cons.prems have "r \<in> set xs" by simp
    from Cons.IH [OF this Cons.prems(2,3,4)] show ?thesis
      by (auto split: sum.splits)
  qed
qed

lemma update_row_bypass_accepts:
  "constraint_violation (updated_row now sets r) = None \<Longrightarrow>
   user_exists profiles (updated_row now sets r) \<Longrightarrow>
   update_row_bypass profiles now sets r = Inr (updated_row now sets r)"
  by (simp add: update_row_bypass_def Let_def)

lemma update_row_bypass_rejects:
  "\<not> (constraint_violation (updated_row now sets r) = None
      \<and> user_exists profiles (updated_row now sets r)) \<Longrightarrow>
   \<exists>e. update_row_bypass profiles now sets r = Inl e"
  by (auto simp: update_row_bypass_def Let_def split: option.splits)

lemma update_job_bypass_map:
  "\<forall>r \<in> set db. job_id r = Some jid \<longrightarrow>
     constraint_violation (updated_row now sets r) = None
     \<and> user_exists profiles (updated_row now sets r) \<Longrightarrow>
   update_job_bypass profiles now jid sets db =
     Inr (map (\<lambda>r. if job_id r = Some jid then updated_row now sets r else r) db)"
  by (induction db) (simp_all add: update_row_bypass_accepts)

lemma update_job_bypass_rejects:
  "r \<in> set db \<Longrightarrow> job_id r = Some jid \<Longrightarrow>
   \<not> (constraint_violation (updated_row now sets r) = None
      \<and> user_exists profiles (updated_row now sets r)) \<Longrightarrow>
   \<exists>e. update_job_bypass profiles now jid sets db = Inl e"
proof (induction db)
  case Nil
  then show ?case by simp
next
  case (Cons x xs)
  show ?case
  proof (cases "x = r")
    case True
    with Cons.prems update_row_bypass_rejects [of now sets r profiles] show ?thesis by auto
  next
    case False
    with Cons.prems have "r \<in> set xs" by simp
    from Cons.IH [OF this Cons.prems(2,3)] show ?thesis
      by (auto split: sum.splits)
  qed
qed

text \<open>
  C4, as stated, fails: the owner's \<open>update\<close> of a completed job that sets status,
  progress, step, result and error is accepted, and the job is \<open>running\<close> again.
\<close>

theorem terminal_job_update_counterexample:
  "terminal (completed_job ''j1'' ''u1'')
   \<and> update_job (Some ''u1'') sample_profiles 3000 ''j1''
        [Set_status (Some ''running''), Set_progress (Some 5), Set_step (Some ''Again''),
         Set_result_json None, Set_error (Some ''x'')]
        [completed_job ''j1'' ''u1'']
     = Inr [(completed_job ''j1'' ''u1'')
              \<lparr>job_status := Some ''running'', job_progress := Some 5, job_step := Some ''Again'',
               result_json := None, job_error := Some ''x'', updated_at := Some 3000\<rparr>]"
  by (simp add: terminal_def completed_job_def sample_profiles_def update_row_def updated_row_def
      owns_def constraint_violation_def not_null_ok_def status_check_def progress_check_def
      user_exists_def)

text \<open>
  C4 (amended): whether a modification of a job's row is accepted is decided by who
  issues it and by the new row, never by the job being completed or failed. Issued by a
  caller subject to row-level security, the statement changes exactly the rows with that
  id that the caller owns and leaves every other row as it is, provided each new row is
  still owned by the caller, meets the table's constraints (id and owner present, status
  among \<open>queued\<close>, \<open>running\<close>, \<open>completed\<close>, \<open>failed\<close>, progress within 0..100) and
  refers to an existing profile; otherwise it is rejected as a whole. Issued by the
  service-role client, which bypasses row-level security, it changes exactly the rows with
  that id under the same constraints, whoever owns them. So the modification of a terminal
  job that meets these conditions is accepted.
\<close>

theorem job_update_guard:
  "((\<forall>r \<in> set db. job_id r = Some jid \<and> owns uid r \<longrightarrow>
        owns uid (updated_row now sets r) \<and> constraint_violation (updated_row now sets r) = None
        \<and> user_exists profiles (updated_row now sets r)) \<longrightarrow>
      update_job_as (Rls_caller uid) profiles now jid sets db =
        Inr (map (\<lambda>r. if job_id r = Some jid \<and> owns uid r then updated_row now sets r else r) db))
   \<and> (\<not> (\<forall>r \<in> set db. job_id r = Some jid \<and> owns uid r \<longrightarrow>
        owns uid (updated_row now sets r) \<and> constraint_violation (updated_row now sets r) = None
        \<and> user_exists profiles (updated_row now sets r)) \<longrightarrow>
      (\<exists>e. update_job_as (Rls_caller uid) profiles now jid sets db = Inl e))
   \<and> ((\<forall>r \<in> set db. job_id r = Some jid \<longrightarrow>
        constraint_violation (updated_row now sets r) = None
        \<and> user_exists profiles (updated_row now sets r)) \<longrightarrow>
      update_job_as Service_role profiles now jid sets db =
        Inr (map (\<lambda>r. if job_id r = Some jid then updated_row now sets r else r) db))
   \<and> (\<not> (\<forall>r \<in> set db. job_id r = Some jid \<longrightarrow>
        constraint_violation (updated_row now sets r) = None
        \<and> user_exists profiles (updated_row now sets r)) \<longrightarrow>
      (\<exists>e. update_job_as Service_role profiles now jid sets db = Inl e))
   \<and> (constraint_violation r' = None \<longleftrightarrow>
        job_id r' \<noteq> None \<and> job_user_id r' \<noteq> None
        \<and> (\<exists>s. job_status r' = Some s \<and> s \<in> set [''queued'', ''running'', ''completed'', ''failed''])
        \<and> (\<exists>p. job_progress r' = Some p \<and> 0 \<le> p \<and> p \<le> 100))
   \<and> ((\<forall>r \<in> set db. job_id r = Some jid \<and> owns uid r \<longrightarrow>
        owns uid (updated_row now sets r) \<and> constraint_violation (updated_row now sets r) = None
        \<and> user_exists profiles (updated_row now sets r))
       \<and> t \<in> set db \<and> job_id t = Some jid \<and> owns uid t \<and> terminal t \<longrightarrow>
      (\<exists>db'. update_job_as (Rls_caller uid) profiles now jid sets db = Inr db'
         \<and> updated_row now sets t \<in> set db'))"
proof -
  have rls_ok: "(\<forall>r \<in> set db. job_id r = Some jid \<and> owns uid r \<longrightarrow>
        owns uid (updated_row now sets r) \<and> constraint_violation (updated_row now sets r) = None
        \<and> user_exists profiles (updated_row now sets r)) \<longrightarrow>
      update_job_as (Rls_caller uid) profiles now jid sets db =
        Inr (map (\<lambda>r. if job_id r = Some jid \<and> owns uid r then updated_row now sets r else r) db)"
    using update_job_map [of db jid uid now sets profiles] by (simp add: update_job_as_def)
  have rls_no: "\<not> (\<forall>r \<in> set db. job_id r = Some jid \<and> owns uid r \<longrightarrow>
        owns uid (updated_row now sets r) \<and> constraint_violation (updated_row now sets r) = None
        \<and> user_exists profiles (updated_row now sets r)) \<longrightarrow>
      (\<exists>e. update_job_as (Rls_caller uid) profiles now jid sets db = Inl e)"
    using update_job_rejects [of _ db jid uid now sets profiles]
    unfolding update_job_as_def by (simp only: db_caller.case) blast
  have svc_ok: "(\<forall>r \<in> set db. job_id r = Some jid \<longrightarrow>
        constraint_violation (updated_row now sets r) = None
        \<and> user_exists profiles (updated_row now sets r)) \<longrightarrow>
      update_job_as Service_role profiles now jid sets db =
        Inr (map (\<lambda>r. if job_id r = Some jid then updated_row now sets r else r) db)"
    using update_job_bypass_map [of db jid now sets profiles] by (simp add: update_job_as_def)
  have svc_no: "\<not> (\<forall>r \<in> set db. job_id r = Some jid \<longrightarrow>
        constraint_violation (updated_row now sets r) = None
        \<and> user_exists profiles (updated_row now sets r)) \<longrightarrow>
      (\<exists>e. update_job_as Service_role profiles now jid sets db = Inl e)"
    using update_job_bypass_rejects [of _ db jid now sets profiles]
    unfolding update_job_as_def by (simp only: db_caller.case) blast
  have checks: "constraint_violation r' = None \<longleftrightarrow>
        job_id r' \<noteq> None \<and> job_user_id r' \<noteq> None
        \<and> (\<exists>s. job_status r' = Some s \<and> s \<in> set [''queued'', ''running'', ''completed'', ''failed''])
        \<and> (\<exists>p. job_progress r' = Some p \<and> 0 \<le> p \<and> p \<le> 100)"
    by (rule constraint_violation_None)
  have on_terminal: "(\<forall>r \<in> set db. job_id r = Some jid \<and> owns uid r \<longrightarrow>
        owns uid (updated_row now sets r) \<and> constraint_violation (updated_row now sets r) = None
        \<and> user_exists profiles (updated_row now sets r))
       \<and> t \<in> set db \<and> job_id t = Some jid \<and> owns uid t \<and> terminal t \<longrightarrow>
      (\<exists>db'. update_job_as (Rls_caller uid) profiles now jid sets db = Inr db'
         \<and> updated_row now sets t \<in> set db')"
  proof
    assume a: "(\<forall>r \<in> set db. job_id r = Some jid \<and> owns uid r \<longrightarrow>
        owns uid (updated_row now sets r) \<and> constraint_violation (updated_row now sets r) = None
        \<and> user_exists profiles (updated_row now sets r))
       \<and> t \<in> set db \<and> job_id t = Some jid \<and> owns uid t \<and> terminal t"
    let ?f = "\<lambda>r. if job_id r = Some jid \<and> owns uid r then updated_row now sets r else r"
    from a rls_ok have "update_job_as (Rls_caller uid) profiles now jid sets db = Inr (map ?f db)"
      by blast
    moreover from a have "?f t \<in> set (map ?f db)" by (intro imageI [of t "set db" ?f, folded set_map]) simp
    moreover from a have "?f t = updated_row now sets t" by simp
    ultimately show "\<exists>db'. update_job_as (Rls_caller uid) profiles now jid sets db = Inr db'
         \<and> updated_row now sets t \<in> set db'" by auto
  qed
  from rls_ok rls_no svc_ok svc_no checks on_terminal show ?thesis by blast
qed

theorem job_update_guard_witness:
  "update_job_as (Rls_caller (Some ''u1'')) sample_profiles 3000 ''j1'' [Set_status (Some ''running'')]
       [completed_job ''j0'' ''u2'', completed_job ''j1'' ''u1'']
     = Inr [completed_job ''j0'' ''u2'',
            updated_row 3000 [Set_status (Some ''running'')] (completed_job ''j1'' ''u1'')]
   \<and> update_job_as (Rls_caller (Some ''u2'')) sample_profiles 3000 ''j1'' [Set_status (Some ''running'')]
       [completed_job ''j0'' ''u2'', completed_job ''j1'' ''u1'']
     = Inr [completed_job ''j0'' ''u2'', completed_job ''j1'' ''u1'']
   \<and> (\<exists>e. update_job_as (Rls_caller (Some ''u1'')) sample_profiles 3000 ''j1'' [Set_progress (Some 101)]
       [completed_job ''j0'' ''u2'', completed_job ''j1'' ''u1''] = Inl e)
   \<and> update_job_as Service_role sample_profiles 3000 ''j1'' [Set_status (Some ''running'')]
       [completed_job ''j0'' ''u2'', completed_job ''j1'' ''u1'']
     = Inr [completed_job ''j0'' ''u2'',
            updated_row 3000 [Set_status (Some ''running'')] (completed_job ''j1'' ''u1'')]
   \<and> (\<exists>e. update_job_as Service_role sample_profiles 3000 ''j1'' [Set_status (Some ''done'')]
       [completed_job ''j0'' ''u2'', completed_job ''j1'' ''u1''] = Inl e)
   \<and> (\<exists>db'. update_job_as (Rls_caller (Some ''u1'')) sample_profiles 3000 ''j1''
              [Set_status (Some ''running'')]
              [completed_job ''j0'' ''u2'', completed_job ''j1'' ''u1''] = Inr db'
         \<and> updated_row 3000 [Set_status (Some ''running'')] (completed_job ''j1'' ''u1'') \<in> set db')"
proof -
  let ?db = "[completed_job ''j0'' ''u2'', completed_job ''j1'' ''u1'']"
  let ?run = "[Set_status (Some ''running'')]"
  note defs = owns_def completed_job_def updated_row_def constraint_violation_def
    not_null_ok_def status_check_def progress_check_def user_exists_def sample_profiles_def
    terminal_def
  have owner: "update_job_as (Rls_caller (Some ''u1'')) sample_profiles 3000 ''j1'' ?run ?db
      = Inr [completed_job ''j0'' ''u2'', updated_row 3000 ?run (completed_job ''j1'' ''u1'')]
    \<and> (\<exists>db'. update_job_as (Rls_caller (Some ''u1'')) sample_profiles 3000 ''j1'' ?run ?db = Inr db'
         \<and> updated_row 3000 ?run (completed_job ''j1'' ''u1'') \<in> set db')"
    using job_update_guard [of ?db "''j1''" "Some ''u1''" 3000 ?run sample_profiles _
        "completed_job ''j1'' ''u1''"]
    by (simp add: defs)
  have other: "update_job_as (Rls_caller (Some ''u2'')) sample_profiles 3000 ''j1'' ?run ?db = Inr ?db"
    using job_update_guard [of ?db "''j1''" "Some ''u2''" 3000 ?run sample_profiles]
    by (simp add: defs)
  have bad: "\<exists>e. update_job_as (Rls_caller (Some ''u1'')) sample_profiles 3000 ''j1''
      [Set_progress (Some 101)] ?db = Inl e"
    using job_update_guard [of ?db "''j1''" "Some ''u1''" 3000 "[Set_progress (Some 101)]"
        sample_profiles]
    by (simp add: defs)
  have service: "update_job_as Service_role sample_profiles 3000 ''j1'' ?run ?db
      = Inr [completed_job ''j0'' ''u2'', updated_row 3000 ?run (completed_job ''j1'' ''u1'')]"
    using job_update_guard [of ?db "''j1''" _ 3000 ?run sample_profiles]
    by (simp add: defs)
  have service_bad: "\<exists>e. update_job_as Service_role sample_profiles 3000 ''j1''
      [Set_status (Some ''done'')] ?db = Inl e"
    using job_update_guard [of ?db "''j1''" _ 3000 "[Set_status (Some ''done'')]" sample_profiles]
    by (simp add: defs)
  from owner other bad service service_bad show ?thesis by blast
qed






subsection \<open>The Stripe webhook\<close>

text \<open>
  C9: when the \<open>stripe-signature\<close> header is missing (or empty), or
  \<open>STRIPE_WEBHOOK_SECRET\<close> is not configured, or \<open>constructEvent\<close> throws, the handler
  answers 400 and makes no effect: no write to the database and no email.
\<close>

theorem webhook_rejects_unsigned:
  "\<not> truthy sig \<or> \<not> truthy (STRIPE_WEBHOOK_SECRET env)
   \<or> constructEvent env body (or_else sig []) (or_else (STRIPE_WEBHOOK_SECRET env) []) = None \<longrightarrow>
   response_status (fst (webhook_POST env body sig)) = 400 \<and> snd (webhook_POST env body sig) = []"
  by (auto simp: webhook_POST_def)

theorem webhook_rejects_unsigned_witness:
  "response_status (fst (webhook_POST (sample_webhook_env (Some ''whsec'')) ''{}'' None)) = 400
   \<and> snd (webhook_POST (sample_webhook_env (Some ''whsec'')) ''{}'' None) = []
   \<and> response_status (fst (webhook_POST (sample_webhook_env None) ''{}'' (Some ''good''))) = 400
   \<and> snd (webhook_POST (sample_webhook_env None) ''{}'' (Some ''good'')) = []
   \<and> response_status (fst (webhook_POST (sample_webhook_env (Some ''whsec'')) ''{}'' (Some ''forged''))) = 400
   \<and> snd (webhook_POST (sample_webhook_env (Some ''whsec'')) ''{}'' (Some ''forged'')) = []"
  using webhook_rejects_unsigned [of None "sample_webhook_env (Some ''whsec'')" "''{}''"]
    webhook_rejects_unsigned [of "Some ''good''" "sample_webhook_env None" "''{}''"]
    webhook_rejects_unsigned [of "Some ''forged''" "sample_webhook_env (Some ''whsec'')" "''{}''"]
  by (simp add: truthy_def sample_webhook_env_def sample_constructEvent_def or_else_def)

text \<open>A request that passes the verification, for comparison, has effects.\<close>

lemma webhook_accepts_signed:
  "webhook_POST (sample_webhook_env (Some ''whsec'')) ''{}'' (Some ''good'')
   = (Response 200 [(''received'', JBool True)],
      [Db_update ''profiles'' [(''plan'', JString ''starter''), (''credits_remaining'', JNumber 0)]
         ''id'' ''u1'',
       Db_update ''subscriptions'' [(''status'', JString ''canceled'')]
         ''stripe_subscription_id'' ''sub_1'',
       Send_email ''reader@example.com'' ''BOOKFORGE subscription canceled''
         ''<p>Your paid subscription has been canceled and your account moved to Starter.</p>''])"
  by (simp add: webhook_POST_def truthy_def sample_webhook_env_def sample_constructEvent_def
      or_else_def sample_subscription_def sample_email_def sendBillingEmail_def Let_def)

subsection \<open>Credit reset authorization\<close>

lemma isAuthorized_unset: "\<not> truthy secret \<Longrightarrow> isAuthorized secret req"
  by (simp add: isAuthorized_def)

lemma isAuthorized_set:
  "s \<noteq> [] \<Longrightarrow>
   isAuthorized (Some s) req \<longleftrightarrow>
     x_cron_secret req = Some s \<or> authorization req = Some (''Bearer '' @ s)"
  by (auto simp: isAuthorized_def truthy_def or_else_def Let_def)

text \<open>
  C10, as stated, at a secret that is set to the empty string: the request carries neither
  header, so neither header equals the secret or \<open>"Bearer " + secret\<close>, and it is
  accepted all the same.
\<close>

theorem isAuthorized_empty_secret_counterexample:
  "isAuthorized (Some []) \<lparr>authorization = None, x_cron_secret = None\<rparr>
   \<and> x_cron_secret \<lparr>authorization = None, x_cron_secret = None\<rparr> \<noteq> Some []
   \<and> authorization \<lparr>authorization = None, x_cron_secret = None\<rparr> \<noteq> Some (''Bearer '' @ [])"
  by (simp add: isAuthorized_def truthy_def)

text \<open>
  C10 (amended): the check accepts every request when \<open>CRON_SECRET\<close> is unset or empty;
  when it is set to a non-empty value, a request is accepted if and only if its
  \<open>x-cron-secret\<close> header equals the secret or its \<open>Authorization\<close> header equals
  \<open>"Bearer "\<close> followed by the secret; every request that is not accepted receives
  HTTP 401 and the \<open>profiles\<close> table is left as it was.
\<close>

theorem reset_credits_authorization:
  "(secret = None \<or> secret = Some [] \<longrightarrow> isAuthorized secret req)
   \<and> (\<forall>s. secret = Some s \<and> s \<noteq> [] \<longrightarrow>
         (isAuthorized secret req \<longleftrightarrow>
            x_cron_secret req = Some s \<or> authorization req = Some (''Bearer '' @ s)))
   \<and> (\<not> isAuthorized secret req \<longrightarrow> reset_POST secret fails req db = (db, Unauthorized401))"
proof (intro conjI allI impI)
  assume "secret = None \<or> secret = Some []"
  then have "\<not> truthy secret" by (auto simp: truthy_def)
  then show "isAuthorized secret req" by (rule isAuthorized_unset)
next
  fix s assume "secret = Some s \<and> s \<noteq> []"
  then show "isAuthorized secret req \<longleftrightarrow>
      x_cron_secret req = Some s \<or> authorization req = Some (''Bearer '' @ s)"
    using isAuthorized_set [of s req] by simp
next
  assume "\<not> isAuthorized secret req"
  then show "reset_POST secret fails req db = (db, Unauthorized401)"
    by (simp add: reset_POST_def)
qed

theorem reset_credits_authorization_witness:
  "isAuthorized None \<lparr>authorization = None, x_cron_secret = None\<rparr>
   \<and> isAuthorized (Some ''s3'') \<lparr>authorization = Some ''Bearer s3'', x_cron_secret = None\<rparr>
   \<and> \<not> isAuthorized (Some ''s3'') \<lparr>authorization = Some ''s3'', x_cron_secret = None\<rparr>
   \<and> reset_POST (Some ''s3'') no_failure \<lparr>authorization = Some ''s3'', x_cron_secret = None\<rparr>
         [\<lparr>profile_id = ''p1'', profile_plan = ''pro'', credits_remaining = 0\<rparr>]
       = ([\<lparr>profile_id = ''p1'', profile_plan = ''pro'', credits_remaining = 0\<rparr>], Unauthorized401)"
  using reset_credits_authorization [of None "\<lparr>authorization = None, x_cron_secret = None\<rparr>"]
    reset_credits_authorization [of "Some ''s3''"
      "\<lparr>authorization = Some ''Bearer s3'', x_cron_secret = None\<rparr>"]
    reset_credits_authorization [of "Some ''s3''"
      "\<lparr>authorization = Some ''s3'', x_cron_secret = None\<rparr>" no_failure
      "[\<lparr>profile_id = ''p1'', profile_plan = ''pro'', credits_remaining = 0\<rparr>]"]
  by simp

end
